theory Spec2Isabelle
  imports Main "HOL-Library.AList"
begin

section \<open>JavaScript values used by the locking system\<close>

text \<open>
  Template ids, scope keys and names are JavaScript strings. A property that may be
  \<^verbatim>\<open>null\<close> or \<^verbatim>\<open>undefined\<close> is an option. The conditions of the source test
  truthiness: \<^verbatim>\<open>null\<close>, \<^verbatim>\<open>undefined\<close> and the empty string are falsy, every other
  string is truthy.
\<close>

definition truthy :: "string option \<Rightarrow> bool" where
  "truthy v = (case v of None \<Rightarrow> False | Some s \<Rightarrow> s \<noteq> [])"

text \<open>\<^verbatim>\<open>v || null\<close> on a string-or-nullish value.\<close>

definition orNull :: "string option \<Rightarrow> string option" where
  "orNull v = (if truthy v then v else None)"

section \<open>Constants\<close>

definition CACHE_TTL :: int where
  "CACHE_TTL = 1000"

datatype chatType = SINGLE | GROUP

definition SRC_CHARACTER :: string where "SRC_CHARACTER = ''character''"
definition SRC_CHAT :: string where "SRC_CHAT = ''chat''"
definition SRC_GROUP :: string where "SRC_GROUP = ''group''"
definition SRC_GROUP_CHAT :: string where "SRC_GROUP_CHAT = ''group chat''"

section \<open>Context snapshot and lock set\<close>

record snapshot =
  ctype :: chatType
  isGroupChat :: bool
  groupId :: "string option"
  groupName :: "string option"
  chatId :: "string option"
  chatName :: "string option"
  characterName :: "string option"
  primaryId :: "string option"
  secondaryId :: "string option"

text \<open>
  \<^verbatim>\<open>currentLocks\<close>: one slot per lock target. In a group chat the \<^verbatim>\<open>chat\<close> slot
  holds the lock of the group's chat session.
\<close>

record locks =
  character :: "string option"
  chat :: "string option"
  group :: "string option"

definition getEmptyLocks :: locks where
  "getEmptyLocks = \<lparr>character = None, chat = None, group = None\<rparr>"

record lockResult =
  templateId :: "string option"
  source :: string

section \<open>Extension settings (the object stored under the key CCPM)\<close>

text \<open>
  \<^verbatim>\<open>templateLocks.character\<close> is an object from character keys to template ids; it is an
  association list here. \<^verbatim>\<open>templateLocks\<close> and its \<^verbatim>\<open>character\<close> property may each be
  missing. The three priority preferences are read by truthiness only, so each is the
  truth value of the property (a missing property is falsy).
\<close>

record templateLocks =
  tl_character :: "(string \<times> string) list option"

record extensionSettings =
  es_templateLocks :: "templateLocks option"
  preferCharacterOverChat :: bool
  preferGroupOverChat :: bool
  preferIndividualCharacterInGroup :: bool

section \<open>TemplateLockResolver\<close>

definition noneResult :: lockResult where
  "noneResult = \<lparr>templateId = None, source = ''none''\<rparr>"

definition resolveGroupLocks :: "extensionSettings \<Rightarrow> snapshot \<Rightarrow> locks \<Rightarrow> lockResult" where
  "resolveGroupLocks prefs ctx L =
     (if preferIndividualCharacterInGroup prefs \<and> truthy (character L)
      then \<lparr>templateId = character L, source = SRC_CHARACTER\<rparr>
      else if preferGroupOverChat prefs then
        (if truthy (group L) then \<lparr>templateId = group L, source = SRC_GROUP\<rparr>
         else if truthy (chat L)
           then \<lparr>templateId = chat L, source = SRC_GROUP_CHAT @ '' (fallback)''\<rparr>
         else if truthy (character L)
           then \<lparr>templateId = character L, source = SRC_CHARACTER @ '' (fallback)''\<rparr>
         else noneResult)
      else
        (if truthy (chat L) then \<lparr>templateId = chat L, source = SRC_GROUP_CHAT\<rparr>
         else if truthy (group L)
           then \<lparr>templateId = group L, source = SRC_GROUP @ '' (fallback)''\<rparr>
         else if truthy (character L)
           then \<lparr>templateId = character L, source = SRC_CHARACTER @ '' (fallback)''\<rparr>
         else noneResult))"

definition resolveSingleLocks :: "extensionSettings \<Rightarrow> snapshot \<Rightarrow> locks \<Rightarrow> lockResult" where
  "resolveSingleLocks prefs ctx L =
     (if preferCharacterOverChat prefs then
        (if truthy (character L) then \<lparr>templateId = character L, source = SRC_CHARACTER\<rparr>
         else if truthy (chat L)
           then \<lparr>templateId = chat L, source = SRC_CHAT @ '' (fallback)''\<rparr>
         else noneResult)
      else
        (if truthy (chat L) then \<lparr>templateId = chat L, source = SRC_CHAT\<rparr>
         else if truthy (character L)
           then \<lparr>templateId = character L, source = SRC_CHARACTER @ '' (fallback)''\<rparr>
         else noneResult))"

definition resolve :: "extensionSettings \<Rightarrow> snapshot \<Rightarrow> locks \<Rightarrow> lockResult" where
  "resolve prefs ctx availableLocks =
     (if isGroupChat ctx then resolveGroupLocks prefs ctx availableLocks
      else resolveSingleLocks prefs ctx availableLocks)"

subsection \<open>The legacy resolver (second copy in the same file)\<close>

definition legacy_resolveGroupLocks :: "snapshot \<Rightarrow> locks \<Rightarrow> lockResult" where
  "legacy_resolveGroupLocks ctx L =
     (if truthy (group L) then \<lparr>templateId = group L, source = SRC_GROUP\<rparr>
      else if truthy (chat L) then \<lparr>templateId = chat L, source = SRC_GROUP_CHAT\<rparr>
      else if truthy (character L) then \<lparr>templateId = character L, source = SRC_CHARACTER\<rparr>
      else noneResult)"

definition legacy_resolveSingleLocks :: "snapshot \<Rightarrow> locks \<Rightarrow> lockResult" where
  "legacy_resolveSingleLocks ctx L =
     (if truthy (character L) then \<lparr>templateId = character L, source = SRC_CHARACTER\<rparr>
      else if truthy (chat L) then \<lparr>templateId = chat L, source = SRC_CHAT\<rparr>
      else noneResult)"

definition legacy_resolve :: "extensionSettings \<Rightarrow> snapshot \<Rightarrow> locks \<Rightarrow> lockResult" where
  "legacy_resolve prefs ctx availableLocks =
     (if isGroupChat ctx then legacy_resolveGroupLocks ctx availableLocks
      else legacy_resolveSingleLocks ctx availableLocks)"

subsection \<open>Priority preferences as rankings (the specification's reading)\<close>

datatype scopeKind = Character | Chat | Group | GroupSession

text \<open>
  The slot of the lock set that holds the lock of a scope kind: the chat lock and the
  group-session lock share the \<^verbatim>\<open>chat\<close> slot, told apart by the context family.
\<close>

fun lockOf :: "locks \<Rightarrow> scopeKind \<Rightarrow> string option" where
  "lockOf L Character = character L"
| "lockOf L Chat = chat L"
| "lockOf L GroupSession = chat L"
| "lockOf L Group = group L"

text \<open>
  The ranking a preference stands for: the single family is ordered by
  \<^verbatim>\<open>preferCharacterOverChat\<close>; in the group family \<^verbatim>\<open>preferIndividualCharacterInGroup\<close>
  puts the character first and \<^verbatim>\<open>preferGroupOverChat\<close> orders group and group session.
\<close>

definition singleRanking :: "extensionSettings \<Rightarrow> scopeKind list" where
  "singleRanking prefs =
     (if preferCharacterOverChat prefs then [Character, Chat] else [Chat, Character])"

definition groupRanking :: "extensionSettings \<Rightarrow> scopeKind list" where
  "groupRanking prefs =
     (if preferIndividualCharacterInGroup prefs
      then (if preferGroupOverChat prefs then [Character, Group, GroupSession]
            else [Character, GroupSession, Group])
      else (if preferGroupOverChat prefs then [Group, GroupSession, Character]
            else [GroupSession, Group, Character]))"

text \<open>The first scope kind of a ranking that has a non-null lock, with its template id.\<close>

fun firstLocked :: "scopeKind list \<Rightarrow> locks \<Rightarrow> (string \<times> scopeKind) option" where
  "firstLocked [] L = None"
| "firstLocked (k # ks) L =
     (case lockOf L k of Some t \<Rightarrow> Some (t, k) | None \<Rightarrow> firstLocked ks L)"

text \<open>
  What the specification asks of \<^verbatim>\<open>resolve\<close>: the lock of the highest-ranked scope kind
  that has one, with that scope kind, or nothing.
\<close>

definition specResolve :: "scopeKind list \<Rightarrow> locks \<Rightarrow> string option \<times> scopeKind option" where
  "specResolve ranking L =
     (case firstLocked ranking L of None \<Rightarrow> (None, None) | Some (t, k) \<Rightarrow> (Some t, Some k))"

text \<open>The scope kind a source label names; a lower-ranked winner carries the suffix.\<close>

definition sourceScope :: "string \<Rightarrow> scopeKind option" where
  "sourceScope s =
     (if s = ''character'' \<or> s = ''character (fallback)'' then Some Character
      else if s = ''chat'' \<or> s = ''chat (fallback)'' then Some Chat
      else if s = ''group'' \<or> s = ''group (fallback)'' then Some Group
      else if s = ''group chat'' \<or> s = ''group chat (fallback)'' then Some GroupSession
      else None)"

text \<open>
  A lock set as the lock stores produce it: every slot is null or a non-empty template id
  (each getter ends in \<^verbatim>\<open>|| null\<close>, and a template id is never empty).
\<close>

definition wellFormedLocks :: "locks \<Rightarrow> bool" where
  "wellFormedLocks L =
     (character L \<noteq> Some [] \<and> chat L \<noteq> Some [] \<and> group L \<noteq> Some [])"

definition defaultSettings :: extensionSettings where
  "defaultSettings =
     \<lparr>es_templateLocks = Some \<lparr>tl_character = None\<rparr>,
      preferCharacterOverChat = True,
      preferGroupOverChat = True,
      preferIndividualCharacterInGroup = False\<rparr>"


section \<open>Host application state\<close>

text \<open>
  Strings are modelled over the Latin-1 code units. Every such string is already in
  Unicode normal form C, so \<^verbatim>\<open>normalize('NFC')\<close> is the identity on them; the
  white space that \<^verbatim>\<open>trim\<close> strips is, in this range, TAB, LF, VT, FF, CR, SPACE and
  the no-break space.
\<close>

definition isWhiteSpace :: "char \<Rightarrow> bool" where
  "isWhiteSpace c =
     (c \<in> set [CHR 0x09, CHR 0x0A, CHR 0x0B, CHR 0x0C, CHR 0x0D, CHR 0x20, CHR 0xA0])"

definition jsTrim :: "string \<Rightarrow> string" where
  "jsTrim s = rev (dropWhile isWhiteSpace (rev (dropWhile isWhiteSpace s)))"

definition normalizeNFC :: "string \<Rightarrow> string" where
  "normalizeNFC s = s"

text \<open>A number or a string, and \<^verbatim>\<open>String(v)\<close> on it (decimal digits for a number).\<close>

datatype jsval = Num int | Str string

text \<open>\<^verbatim>\<open>digitChar\<close> is only applied to a number below ten.\<close>

definition digitChar :: "nat \<Rightarrow> char" where
  "digitChar d = ''0123456789'' ! d"

function showNat :: "nat \<Rightarrow> string" where
  "showNat n = (if n < 10 then [digitChar n] else showNat (n div 10) @ [digitChar (n mod 10)])"
  by pat_completeness auto
termination
  by (relation "measure (\<lambda>n. n)") auto

declare showNat.simps [simp del]

definition showInt :: "int \<Rightarrow> string" where
  "showInt i = (if i < 0 then CHR ''-'' # showNat (nat (- i)) else showNat (nat i))"

fun jsString :: "jsval \<Rightarrow> string" where
  "jsString (Num i) = showInt i"
| "jsString (Str s) = s"

datatype error = TypeError | HostError

text \<open>
  The host functions the extension calls, the toasts it raises, and the log of what
  happened. A host call that throws is not logged: the flush or render did not happen.
  The log also records each entry into \<^verbatim>\<open>applyTemplate\<close>.
\<close>

datatype hostFn =
  SaveSettingsDebounced | SaveMetadataDebounced | EditGroup
  | SaveServiceSettings | Render | PopupShow

datatype toastKind = ToastError | ToastWarning | ToastSuccess | ToastInfo

datatype event = HostCall hostFn | Toast toastKind | ApplyTemplateEntered string

text \<open>\<^verbatim>\<open>chat_metadata\<close> is tested with \<^verbatim>\<open>typeof\<close> in one place and with \<^verbatim>\<open>?.\<close> in others.\<close>

datatype 'a nullable = Undefined | Null | Obj 'a

record ccpmMetadata =
  templateLock :: "string option"

text \<open>
  \<^verbatim>\<open>character_name\<close> is used only when it is a string, so a value of another type is
  \<open>None\<close> here, as a missing one is.
\<close>

record chatMetadata =
  character_name :: "string option"
  md_CCPM :: "ccpmMetadata option"

record groupRec =
  g_id :: string
  g_name :: "string option"
  g_chat_id :: "string option"
  ccpm_template_lock :: "string option"

record prompt =
  p_identifier :: string
  role :: string
  content :: string

record orderEntry =
  oe_identifier :: string
  enabled :: bool

record promptOrderEntry =
  character_id :: jsval
  order :: "orderEntry list"

record activeCharacterRec =
  ac_id :: jsval

record promptManagerRec =
  activeCharacter :: "activeCharacterRec option"

text \<open>
  The arrays the host supplies (\<^verbatim>\<open>groups\<close>, \<^verbatim>\<open>characters\<close>, \<^verbatim>\<open>prompt_order\<close>) may hold a
  null entry; reading a property of it raises a TypeError. For \<^verbatim>\<open>characters\<close> only the
  name of an entry is read. \<^verbatim>\<open>getContext_chatId\<close> is the outcome of \<^verbatim>\<open>getContext()\<close>: an
  exception, or the \<^verbatim>\<open>chatId\<close> of the object it returns. \<^verbatim>\<open>throwing\<close> lists the host
  functions that throw when called, and \<^verbatim>\<open>popupAnswer\<close> tells whether the user confirms
  a popup.
\<close>

record world =
  selected_group :: "string option"
  groups :: "groupRec option list option"
  name2 :: "string option"
  systemUserName :: string
  neutralCharacterName :: string
  chat_metadata :: "chatMetadata nullable"
  getContext_chatId :: "error + string option"
  characters :: "string option list option"
  ext_CCPM :: "extensionSettings option"
  ext_autoApplyMode :: "string option"
  oai_prompts :: "prompt list option"
  oai_prompt_order :: "promptOrderEntry option list option"
  promptManager :: "promptManagerRec option"
  throwing :: "hostFn list"
  popupAnswer :: bool
  events :: "event list"

definition toast :: "toastKind \<Rightarrow> world \<Rightarrow> world" where
  "toast k w = w\<lparr>events := events w @ [Toast k]\<rparr>"

definition callHost :: "hostFn \<Rightarrow> world \<Rightarrow> error + world" where
  "callHost f w =
     (if f \<in> set (throwing w) then Inl HostError
      else Inr (w\<lparr>events := events w @ [HostCall f]\<rparr>))"

text \<open>\<^verbatim>\<open>groups?.find(x => x.id === groupId)\<close>\<close>

fun findGroup :: "string \<Rightarrow> groupRec option list \<Rightarrow> error + groupRec option" where
  "findGroup gid [] = Inr None"
| "findGroup gid (None # xs) = Inl TypeError"
| "findGroup gid (Some g # xs) = (if g_id g = gid then Inr (Some g) else findGroup gid xs)"

definition groupsFind :: "world \<Rightarrow> string \<Rightarrow> error + groupRec option" where
  "groupsFind w gid = (case groups w of None \<Rightarrow> Inr None | Some gs \<Rightarrow> findGroup gid gs)"

text \<open>Assignment to a property of the group object that \<^verbatim>\<open>find\<close> returned.\<close>

fun updateGroup ::
  "string \<Rightarrow> (groupRec \<Rightarrow> groupRec) \<Rightarrow> groupRec option list \<Rightarrow> groupRec option list" where
  "updateGroup gid f [] = []"
| "updateGroup gid f (None # xs) = None # xs"
| "updateGroup gid f (Some g # xs) =
     (if g_id g = gid then Some (f g) # xs else Some g # updateGroup gid f xs)"

definition groupsUpdate :: "string \<Rightarrow> (groupRec \<Rightarrow> groupRec) \<Rightarrow> world \<Rightarrow> world" where
  "groupsUpdate gid f w =
     (case groups w of None \<Rightarrow> w | Some gs \<Rightarrow> w\<lparr>groups := Some (updateGroup gid f gs)\<rparr>)"

text \<open>
  \<^verbatim>\<open>characters?.findIndex(x => x.name === name)\<close>: \<open>None\<close> when \<^verbatim>\<open>characters\<close> is
  missing (the result is \<^verbatim>\<open>undefined\<close>), else the index or \<open>-1\<close>.
\<close>

fun findIndexFrom :: "int \<Rightarrow> string \<Rightarrow> string option list \<Rightarrow> error + int" where
  "findIndexFrom i n [] = Inr (- 1)"
| "findIndexFrom i n (None # xs) = Inl TypeError"
| "findIndexFrom i n (Some x # xs) = (if x = n then Inr i else findIndexFrom (i + 1) n xs)"

definition charactersFindIndex :: "world \<Rightarrow> string \<Rightarrow> error + int option" where
  "charactersFindIndex w n =
     (case characters w of None \<Rightarrow> Inr None
      | Some cs \<Rightarrow> (case findIndexFrom 0 n cs of Inl e \<Rightarrow> Inl e | Inr i \<Rightarrow> Inr (Some i)))"

text \<open>\<^verbatim>\<open>chId !== -1 ? chId : context.characterName\<close>; \<open>None\<close> is \<^verbatim>\<open>undefined\<close>.\<close>

definition characterKeyOf :: "int option \<Rightarrow> string \<Rightarrow> jsval option" where
  "characterKeyOf chId n =
     (case chId of None \<Rightarrow> None
      | Some i \<Rightarrow> (if i \<noteq> - 1 then Some (Num i) else Some (Str n)))"

section \<open>ChatContext\<close>

record chatContext =
  cache :: "snapshot option"
  cacheTime :: int

definition newChatContext :: chatContext where
  "newChatContext = \<lparr>cache = None, cacheTime = 0\<rparr>"

definition getCharacterNameFromChatMetadata :: "world \<Rightarrow> string option" where
  "getCharacterNameFromChatMetadata w =
     (case chat_metadata w of
        Obj md \<Rightarrow> (if truthy (character_name md)
                   then map_option jsTrim (character_name md) else None)
      | _ \<Rightarrow> None)"

text \<open>The name after the fallback chain, before it is checked and normalised.\<close>

definition resolvedCharacterName :: "world \<Rightarrow> string option" where
  "resolvedCharacterName w =
     (if \<not> truthy (name2 w) \<or> name2 w = Some (systemUserName w)
         \<or> name2 w = Some (neutralCharacterName w)
      then getCharacterNameFromChatMetadata w else name2 w)"

definition getCharacterNameForSettings :: "world \<Rightarrow> string option" where
  "getCharacterNameForSettings w =
     (let characterName = resolvedCharacterName w in
      if \<not> truthy characterName then None
      else map_option (\<lambda>s. normalizeNFC (jsTrim s)) characterName)"

definition getCurrentChatId :: "world \<Rightarrow> string option" where
  "getCurrentChatId w =
     (case getContext_chatId w of Inl e \<Rightarrow> None | Inr c \<Rightarrow> orNull c)"

definition buildSingleContext :: "world \<Rightarrow> snapshot" where
  "buildSingleContext w =
     (let characterName = getCharacterNameForSettings w; chatId = getCurrentChatId w in
      \<lparr>ctype = SINGLE, isGroupChat = False, groupId = None, groupName = None,
       chatId = chatId, chatName = chatId, characterName = characterName,
       primaryId = characterName, secondaryId = chatId\<rparr>)"

definition buildGroupContext :: "world \<Rightarrow> error + snapshot" where
  "buildGroupContext w =
     (let groupId = selected_group w in
      case groupsFind w (case groupId of Some g \<Rightarrow> g | None \<Rightarrow> []) of
        Inl e \<Rightarrow> Inl e
      | Inr grp \<Rightarrow>
          (let gname = orNull (case grp of None \<Rightarrow> None | Some g \<Rightarrow> g_name g);
               gchat = (case grp of None \<Rightarrow> None | Some g \<Rightarrow> g_chat_id g)
           in Inr \<lparr>ctype = GROUP, isGroupChat = True, groupId = groupId, groupName = gname,
                   chatId = orNull gchat, chatName = gname, characterName = gname,
                   primaryId = groupId, secondaryId = gchat\<rparr>))"

definition buildContext :: "world \<Rightarrow> error + snapshot" where
  "buildContext w =
     (if truthy (selected_group w) then buildGroupContext w
      else Inr (buildSingleContext w))"

text \<open>
  \<^verbatim>\<open>now\<close> is the reading of \<^verbatim>\<open>Date.now()\<close> at the call. \<^verbatim>\<open>rebuildCurrent\<close> is the
  \<^verbatim>\<open>try\<close>/\<^verbatim>\<open>catch\<close> block of \<^verbatim>\<open>getCurrent\<close>.
\<close>

definition rebuildCurrent ::
  "int \<Rightarrow> world \<Rightarrow> chatContext \<Rightarrow> (error + snapshot) \<times> chatContext \<times> world" where
  "rebuildCurrent now w cc =
     (case buildContext w of
        Inr c \<Rightarrow> (Inr c, \<lparr>cache = Some c, cacheTime = now\<rparr>, w)
      | Inl e \<Rightarrow>
          (let w1 = toast ToastError w in
           case cache cc of
             Some c \<Rightarrow> (Inr c, cc, toast ToastWarning w1)
           | None \<Rightarrow> (Inl e, cc, w1)))"

definition getCurrent ::
  "int \<Rightarrow> world \<Rightarrow> chatContext \<Rightarrow> (error + snapshot) \<times> chatContext \<times> world" where
  "getCurrent now w cc =
     (case cache cc of
        Some c \<Rightarrow>
          (if now - cacheTime cc < CACHE_TTL then (Inr c, cc, w)
           else rebuildCurrent now w cc)
      | None \<Rightarrow> rebuildCurrent now w cc)"

definition invalidate :: "chatContext \<Rightarrow> chatContext" where
  "invalidate cc = \<lparr>cache = None, cacheTime = 0\<rparr>"


section \<open>TemplateStorageAdapter\<close>

definition freshExtensionSettings :: extensionSettings where
  "freshExtensionSettings =
     \<lparr>es_templateLocks = Some \<lparr>tl_character = None\<rparr>,
      preferCharacterOverChat = False,
      preferGroupOverChat = False,
      preferIndividualCharacterInGroup = False\<rparr>"

definition getExtensionSettings :: "world \<Rightarrow> extensionSettings \<times> world" where
  "getExtensionSettings w =
     (case ext_CCPM w of
        Some es \<Rightarrow> (es, w)
      | None \<Rightarrow> (freshExtensionSettings, w\<lparr>ext_CCPM := Some freshExtensionSettings\<rparr>))"

definition saveExtensionSettings :: "world \<Rightarrow> error + world" where
  "saveExtensionSettings w = callHost SaveSettingsDebounced w"

text \<open>\<^verbatim>\<open>extensionSettings.templateLocks?.character?.[key]\<close>\<close>

definition characterLockEntry :: "extensionSettings \<Rightarrow> string \<Rightarrow> string option" where
  "characterLockEntry es k =
     (case es_templateLocks es of
        None \<Rightarrow> None
      | Some t \<Rightarrow> (case tl_character t of None \<Rightarrow> None | Some m \<Rightarrow> map_of m k))"

definition getCharacterTemplateLock :: "jsval option \<Rightarrow> world \<Rightarrow> string option \<times> world" where
  "getCharacterTemplateLock characterKey w =
     (case characterKey of
        None \<Rightarrow> (None, w)
      | Some k \<Rightarrow>
          (let (es, w1) = getExtensionSettings w; chIdKey = jsString k
           in (orNull (characterLockEntry es chIdKey), w1)))"

definition setCharacterTemplateLock ::
  "jsval option \<Rightarrow> string \<Rightarrow> world \<Rightarrow> (error + bool) \<times> world" where
  "setCharacterTemplateLock characterKey tid w =
     (case characterKey of
        None \<Rightarrow> (Inr False, w)
      | Some k \<Rightarrow>
          (let (es, w1) = getExtensionSettings w;
               tlocks = (case es_templateLocks es of None \<Rightarrow> \<lparr>tl_character = None\<rparr> | Some t \<Rightarrow> t);
               m = (case tl_character tlocks of None \<Rightarrow> [] | Some m \<Rightarrow> m);
               saveKey = jsString k;
               es' = es\<lparr>es_templateLocks :=
                        Some (tlocks\<lparr>tl_character := Some (AList.update saveKey tid m)\<rparr>)\<rparr>;
               w2 = w1\<lparr>ext_CCPM := Some es'\<rparr>
           in case saveExtensionSettings w2 of
                Inl e \<Rightarrow> (Inl e, w2)
              | Inr w3 \<Rightarrow> (Inr True, w3)))"

definition deleteCharacterTemplateLock ::
  "jsval option \<Rightarrow> world \<Rightarrow> (error + bool) \<times> world" where
  "deleteCharacterTemplateLock characterKey w =
     (case characterKey of
        None \<Rightarrow> (Inr False, w)
      | Some k \<Rightarrow>
          (let (es, w1) = getExtensionSettings w; chIdKey = jsString k in
           if truthy (characterLockEntry es chIdKey) then
             (let es' = es\<lparr>es_templateLocks :=
                          map_option (\<lambda>t. t\<lparr>tl_character :=
                             map_option (AList.delete chIdKey) (tl_character t)\<rparr>)
                            (es_templateLocks es)\<rparr>;
                  w2 = w1\<lparr>ext_CCPM := Some es'\<rparr>
              in case saveExtensionSettings w2 of
                   Inl e \<Rightarrow> (Inl e, w2)
                 | Inr w3 \<Rightarrow> (Inr True, w3))
           else (Inr False, w1)))"

definition getGroupTemplateLock :: "string option \<Rightarrow> world \<Rightarrow> string option \<times> world" where
  "getGroupTemplateLock gid w =
     (case gid of
        None \<Rightarrow> (None, w)
      | Some g \<Rightarrow>
          (if g = [] then (None, w)
           else case groupsFind w g of
                  Inl e \<Rightarrow> (None, toast ToastWarning w)
                | Inr grp \<Rightarrow>
                    (orNull (case grp of None \<Rightarrow> None | Some x \<Rightarrow> ccpm_template_lock x), w)))"

definition setGroupTemplateLock :: "string option \<Rightarrow> string \<Rightarrow> world \<Rightarrow> bool \<times> world" where
  "setGroupTemplateLock gid tid w =
     (case gid of
        None \<Rightarrow> (False, w)
      | Some g \<Rightarrow>
          (if g = [] then (False, w)
           else case groupsFind w g of
                  Inl e \<Rightarrow> (False, toast ToastError w)
                | Inr None \<Rightarrow> (False, toast ToastWarning w)
                | Inr (Some grp) \<Rightarrow>
                    (let w1 = groupsUpdate g (\<lambda>x. x\<lparr>ccpm_template_lock := Some tid\<rparr>) w in
                     case callHost EditGroup w1 of
                       Inl e \<Rightarrow> (False, toast ToastError w1)
                     | Inr w2 \<Rightarrow> (True, w2))))"

definition deleteGroupTemplateLock :: "string option \<Rightarrow> world \<Rightarrow> bool \<times> world" where
  "deleteGroupTemplateLock gid w =
     (case gid of
        None \<Rightarrow> (False, w)
      | Some g \<Rightarrow>
          (if g = [] then (False, w)
           else case groupsFind w g of
                  Inl e \<Rightarrow> (False, toast ToastError w)
                | Inr grp \<Rightarrow>
                    (if truthy (case grp of None \<Rightarrow> None | Some x \<Rightarrow> ccpm_template_lock x) then
                       (let w1 = groupsUpdate g (\<lambda>x. x\<lparr>ccpm_template_lock := None\<rparr>) w in
                        case callHost EditGroup w1 of
                          Inl e \<Rightarrow> (False, toast ToastError w1)
                        | Inr w2 \<Rightarrow> (True, w2))
                     else (False, w))))"

definition triggerMetadataSave :: "world \<Rightarrow> world" where
  "triggerMetadataSave w =
     (case callHost SaveMetadataDebounced w of
        Inl e \<Rightarrow> toast ToastError w
      | Inr w' \<Rightarrow> w')"

text \<open>\<^verbatim>\<open>metadata?.[KEY]?.templateLock\<close> on a metadata object.\<close>

definition metadataLock :: "chatMetadata \<Rightarrow> string option" where
  "metadataLock md = (case md_CCPM md of None \<Rightarrow> None | Some c \<Rightarrow> templateLock c)"

text \<open>\<^verbatim>\<open>if (!metadata[KEY]) metadata[KEY] = {}; metadata[KEY].templateLock = v\<close>\<close>

definition metadataSetLock :: "string \<Rightarrow> chatMetadata \<Rightarrow> chatMetadata" where
  "metadataSetLock tid md =
     md\<lparr>md_CCPM := Some ((case md_CCPM md of None \<Rightarrow> \<lparr>templateLock = None\<rparr> | Some c \<Rightarrow> c)
                          \<lparr>templateLock := Some tid\<rparr>)\<rparr>"

text \<open>\<^verbatim>\<open>delete metadata[KEY].templateLock\<close>\<close>

definition metadataDeleteLock :: "chatMetadata \<Rightarrow> chatMetadata" where
  "metadataDeleteLock md =
     md\<lparr>md_CCPM := map_option (\<lambda>c. c\<lparr>templateLock := None\<rparr>) (md_CCPM md)\<rparr>"

definition getChatTemplateLock :: "world \<Rightarrow> string option" where
  "getChatTemplateLock w =
     (case chat_metadata w of Obj md \<Rightarrow> orNull (metadataLock md) | _ \<Rightarrow> None)"

definition setChatTemplateLock :: "string \<Rightarrow> world \<Rightarrow> bool \<times> world" where
  "setChatTemplateLock tid w =
     (case chat_metadata w of
        Obj md \<Rightarrow>
          (True, triggerMetadataSave (w\<lparr>chat_metadata := Obj (metadataSetLock tid md)\<rparr>))
      | _ \<Rightarrow> (False, toast ToastWarning w))"

definition deleteChatTemplateLock :: "world \<Rightarrow> bool \<times> world" where
  "deleteChatTemplateLock w =
     (case chat_metadata w of
        Obj md \<Rightarrow>
          (if truthy (metadataLock md)
           then (True, triggerMetadataSave (w\<lparr>chat_metadata := Obj (metadataDeleteLock md)\<rparr>))
           else (False, w))
      | _ \<Rightarrow> (False, w))"

text \<open>
  The group-chat variants test \<^verbatim>\<open>typeof chat_metadata !== 'undefined'\<close> and then index
  it, so a \<^verbatim>\<open>null\<close> raises a TypeError that their \<^verbatim>\<open>catch\<close> turns into a toast.
\<close>

definition getGroupChatTemplateLock :: "string option \<Rightarrow> world \<Rightarrow> string option \<times> world" where
  "getGroupChatTemplateLock gid w =
     (if \<not> truthy gid then (None, w)
      else case chat_metadata w of
             Undefined \<Rightarrow> (None, w)
           | Null \<Rightarrow> (None, toast ToastWarning w)
           | Obj md \<Rightarrow> (orNull (metadataLock md), w))"

definition setGroupChatTemplateLock :: "string option \<Rightarrow> string \<Rightarrow> world \<Rightarrow> bool \<times> world" where
  "setGroupChatTemplateLock gid tid w =
     (if \<not> truthy gid then (False, w)
      else case chat_metadata w of
             Undefined \<Rightarrow> (False, w)
           | Null \<Rightarrow> (False, toast ToastError w)
           | Obj md \<Rightarrow> (True, w\<lparr>chat_metadata := Obj (metadataSetLock tid md)\<rparr>))"

definition deleteGroupChatTemplateLock :: "string option \<Rightarrow> world \<Rightarrow> bool \<times> world" where
  "deleteGroupChatTemplateLock gid w =
     (if \<not> truthy gid then (False, w)
      else case chat_metadata w of
             Undefined \<Rightarrow> (False, w)
           | Null \<Rightarrow> (False, toast ToastError w)
           | Obj md \<Rightarrow>
               (if truthy (metadataLock md)
                then (True, w\<lparr>chat_metadata := Obj (metadataDeleteLock md)\<rparr>)
                else (False, w)))"

section \<open>TemplateLockManager\<close>

record templateLockManager =
  chatContext :: chatContext
  currentLocks :: locks

definition newTemplateLockManager :: templateLockManager where
  "newTemplateLockManager = \<lparr>chatContext = newChatContext, currentLocks = getEmptyLocks\<rparr>"

text \<open>
  The block both loaders share: look the character up by name and read its lock. The
  first component is the exception that escaped, if any.
\<close>

definition loadCharacterLock ::
  "snapshot \<Rightarrow> templateLockManager \<Rightarrow> world \<Rightarrow> error option \<times> templateLockManager \<times> world" where
  "loadCharacterLock ctx lm w =
     (case characterName ctx of
        None \<Rightarrow> (None, lm, w)
      | Some n \<Rightarrow>
          (if n = [] then (None, lm, w)
           else case charactersFindIndex w n of
                  Inl e \<Rightarrow> (Some e, lm, w)
                | Inr chId \<Rightarrow>
                    (let (l, w1) = getCharacterTemplateLock (characterKeyOf chId n) w
                     in (None, lm\<lparr>currentLocks := (currentLocks lm)\<lparr>character := l\<rparr>\<rparr>, w1))))"

definition loadGroupLocks ::
  "snapshot \<Rightarrow> templateLockManager \<Rightarrow> world \<Rightarrow> error option \<times> templateLockManager \<times> world" where
  "loadGroupLocks ctx lm w =
     (if truthy (groupId ctx) then
        (let (g, w1) = getGroupTemplateLock (groupId ctx) w;
             lm1 = lm\<lparr>currentLocks := (currentLocks lm)\<lparr>group := g\<rparr>\<rparr>;
             (c, w2) = getGroupChatTemplateLock (groupId ctx) w1;
             lm2 = lm1\<lparr>currentLocks := (currentLocks lm1)\<lparr>chat := c\<rparr>\<rparr>
         in loadCharacterLock ctx lm2 w2)
      else loadCharacterLock ctx lm w)"

definition loadSingleLocks ::
  "snapshot \<Rightarrow> templateLockManager \<Rightarrow> world \<Rightarrow> error option \<times> templateLockManager \<times> world" where
  "loadSingleLocks ctx lm w =
     (case loadCharacterLock ctx lm w of
        (Some e, lm1, w1) \<Rightarrow> (Some e, lm1, w1)
      | (None, lm1, w1) \<Rightarrow>
          (if truthy (chatId ctx)
           then (None, lm1\<lparr>currentLocks := (currentLocks lm1)\<lparr>chat := getChatTemplateLock w1\<rparr>\<rparr>, w1)
           else (None, lm1, w1)))"

definition loadCurrentLocks ::
  "int \<Rightarrow> templateLockManager \<Rightarrow> world \<Rightarrow> (error + locks) \<times> templateLockManager \<times> world" where
  "loadCurrentLocks now lm w =
     (case getCurrent now w (chatContext lm) of
        (Inl e, cc, w1) \<Rightarrow> (Inl e, lm\<lparr>chatContext := cc\<rparr>, w1)
      | (Inr ctx, cc, w1) \<Rightarrow>
          (let lm1 = lm\<lparr>chatContext := cc, currentLocks := getEmptyLocks\<rparr> in
           case (if isGroupChat ctx then loadGroupLocks ctx lm1 w1
                 else loadSingleLocks ctx lm1 w1) of
             (Some e, lm2, w2) \<Rightarrow> (Inl e, lm2, w2)
           | (None, lm2, w2) \<Rightarrow> (Inr (currentLocks lm2), lm2, w2)))"

definition getLockToApply ::
  "int \<Rightarrow> templateLockManager \<Rightarrow> world \<Rightarrow> (error + lockResult) \<times> templateLockManager \<times> world" where
  "getLockToApply now lm w =
     (case getCurrent now w (chatContext lm) of
        (Inl e, cc, w1) \<Rightarrow> (Inl e, lm\<lparr>chatContext := cc\<rparr>, w1)
      | (Inr ctx, cc, w1) \<Rightarrow>
          (let (settings, w2) = getExtensionSettings w1
           in (Inr (resolve settings ctx (currentLocks lm)), lm\<lparr>chatContext := cc\<rparr>, w2)))"

definition setLock ::
  "string \<Rightarrow> string \<Rightarrow> int \<Rightarrow> templateLockManager \<Rightarrow> world
     \<Rightarrow> (error + bool) \<times> templateLockManager \<times> world" where
  "setLock target tid now lm w =
     (case getCurrent now w (chatContext lm) of
        (Inl e, cc, w1) \<Rightarrow> (Inl e, lm\<lparr>chatContext := cc\<rparr>, w1)
      | (Inr ctx, cc, w1) \<Rightarrow>
          (let lm1 = lm\<lparr>chatContext := cc\<rparr> in
           if target = ''character'' then
             (case characterName ctx of
                None \<Rightarrow> (Inr False, lm1, w1)
              | Some n \<Rightarrow>
                  (if n = [] then (Inr False, lm1, w1)
                   else case charactersFindIndex w1 n of
                          Inl e \<Rightarrow> (Inl e, lm1, w1)
                        | Inr chId \<Rightarrow>
                            (case setCharacterTemplateLock (characterKeyOf chId n) tid w1 of
                               (Inl e, w2) \<Rightarrow> (Inl e, lm1, w2)
                             | (Inr success, w2) \<Rightarrow>
                                 (Inr success,
                                  if success
                                  then lm1\<lparr>currentLocks := (currentLocks lm1)\<lparr>character := Some tid\<rparr>\<rparr>
                                  else lm1, w2))))
           else if target = ''chat'' then
             (let (success, w2) =
                    (if isGroupChat ctx then setGroupChatTemplateLock (groupId ctx) tid w1
                     else setChatTemplateLock tid w1)
              in (Inr success,
                  if success then lm1\<lparr>currentLocks := (currentLocks lm1)\<lparr>chat := Some tid\<rparr>\<rparr>
                  else lm1, w2))
           else if target = ''group'' then
             (if isGroupChat ctx \<and> truthy (groupId ctx) then
                (let (success, w2) = setGroupTemplateLock (groupId ctx) tid w1
                 in (Inr success,
                     if success then lm1\<lparr>currentLocks := (currentLocks lm1)\<lparr>group := Some tid\<rparr>\<rparr>
                     else lm1, w2))
              else (Inr False, lm1, w1))
           else (Inr False, lm1, w1)))"



section \<open>PromptTemplate and PromptTemplateManager\<close>

text \<open>
  \<^verbatim>\<open>prompts\<close> is the template's object from identifier to prompt, listed in the order
  \<^verbatim>\<open>Object.values\<close> enumerates it. \<^verbatim>\<open>promptOrder\<close> is the saved order; a value that is not
  an array fails the same test as the empty array and is the empty list here.
  \<^verbatim>\<open>promptOrderCharacterId\<close> is \<open>None\<close> when the property is missing.
\<close>

record promptTemplate =
  tmpl_id :: string
  tmpl_name :: string
  prompts :: "(string \<times> prompt) list"
  promptOrder :: "orderEntry list"
  promptOrderCharacterId :: "jsval option"

record promptTemplateManager =
  templates :: "(string \<times> promptTemplate) list"
  lockManager :: templateLockManager

definition getTemplate :: "promptTemplateManager \<Rightarrow> string \<Rightarrow> promptTemplate option" where
  "getTemplate ptm tid = map_of (templates ptm) tid"

text \<open>
  \<^verbatim>\<open>prompt_order?.find(entry => String(entry.character_id) === String(target))\<close>: whether
  an entry was found.
\<close>

fun findOrderEntry :: "string \<Rightarrow> promptOrderEntry option list \<Rightarrow> error + bool" where
  "findOrderEntry k [] = Inr False"
| "findOrderEntry k (None # xs) = Inl TypeError"
| "findOrderEntry k (Some e # xs) =
     (if jsString (character_id e) = k then Inr True else findOrderEntry k xs)"

text \<open>\<^verbatim>\<open>existingOrderEntry.order = ...\<close> on the entry that \<^verbatim>\<open>find\<close> returned.\<close>

fun replaceOrder ::
  "string \<Rightarrow> orderEntry list \<Rightarrow> promptOrderEntry option list \<Rightarrow> promptOrderEntry option list" where
  "replaceOrder k ord [] = []"
| "replaceOrder k ord (None # xs) = None # xs"
| "replaceOrder k ord (Some e # xs) =
     (if jsString (character_id e) = k then Some (e\<lparr>order := ord\<rparr>) # xs
      else Some e # replaceOrder k ord xs)"

text \<open>
  The block of \<^verbatim>\<open>applyTemplate\<close> that restores the prompt order. The copy made by
  \<^verbatim>\<open>JSON.parse(JSON.stringify(...))\<close> equals its argument.
\<close>

definition restorePromptOrder :: "promptTemplate \<Rightarrow> world \<Rightarrow> error + world" where
  "restorePromptOrder tmpl w =
     (let targetCharacterId =
            (case promptOrderCharacterId tmpl of None \<Rightarrow> Num 100000 | Some v \<Rightarrow> v);
          k = jsString targetCharacterId
      in case (case oai_prompt_order w of None \<Rightarrow> Inr False | Some po \<Rightarrow> findOrderEntry k po) of
           Inl e \<Rightarrow> Inl e
         | Inr existing \<Rightarrow>
             (let w1 =
                (if existing
                 then w\<lparr>oai_prompt_order :=
                          map_option (replaceOrder k (promptOrder tmpl)) (oai_prompt_order w)\<rparr>
                 else w\<lparr>oai_prompt_order :=
                          Some ((case oai_prompt_order w of None \<Rightarrow> [] | Some po \<Rightarrow> po)
                                @ [Some \<lparr>character_id = targetCharacterId,
                                         order = promptOrder tmpl\<rparr>])\<rparr>)
              in Inr (w1\<lparr>promptManager :=
                          map_option
                            (\<lambda>pm. pm\<lparr>activeCharacter :=
                                map_option (\<lambda>a. a\<lparr>ac_id := targetCharacterId\<rparr>)
                                  (activeCharacter pm)\<rparr>)
                            (promptManager w1)\<rparr>)))"

definition applyTemplate :: "string \<Rightarrow> promptTemplateManager \<Rightarrow> world \<Rightarrow> bool \<times> world" where
  "applyTemplate tid ptm w0 =
     (let w = w0\<lparr>events := events w0 @ [ApplyTemplateEntered tid]\<rparr> in
      case getTemplate ptm tid of
        None \<Rightarrow> (False, toast ToastError w)
      | Some tmpl \<Rightarrow>
          (case promptManager w of
             None \<Rightarrow> (False, toast ToastError w)
           | Some pm \<Rightarrow>
               (let promptUpdates = map snd (prompts tmpl);
                    w1 = w\<lparr>oai_prompts := Some promptUpdates\<rparr>
                in case (if promptOrder tmpl \<noteq> [] then restorePromptOrder tmpl w1 else Inr w1) of
                     Inl e \<Rightarrow> (False, toast ToastError w1)
                   | Inr w2 \<Rightarrow>
                       (case callHost SaveServiceSettings w2 of
                          Inl e \<Rightarrow> (False, toast ToastError w2)
                        | Inr w3 \<Rightarrow>
                            (case callHost Render w3 of
                               Inl e \<Rightarrow> (False, toast ToastError w3)
                             | Inr w4 \<Rightarrow> (True, toast ToastSuccess w4))))))"

definition AUTO_NEVER :: string where "AUTO_NEVER = ''never''"
definition AUTO_ASK :: string where "AUTO_ASK = ''ask''"
definition AUTO_ALWAYS :: string where "AUTO_ALWAYS = ''always''"

text \<open>\<^verbatim>\<open>extension_settings.ccPromptManager?.autoApplyMode || AUTO_APPLY_MODES.ASK\<close>\<close>

definition configuredAutoApplyMode :: "world \<Rightarrow> string" where
  "configuredAutoApplyMode w =
     (case ext_autoApplyMode w of None \<Rightarrow> AUTO_ASK | Some s \<Rightarrow> (if s = [] then AUTO_ASK else s))"

text \<open>
  \<^verbatim>\<open>getEffectiveLock\<close> reads the clock twice: once in \<^verbatim>\<open>loadCurrentLocks\<close> and once in
  \<^verbatim>\<open>getLockToApply\<close>.
\<close>

definition getEffectiveLock ::
  "int \<Rightarrow> int \<Rightarrow> promptTemplateManager \<Rightarrow> world
     \<Rightarrow> (error + lockResult) \<times> promptTemplateManager \<times> world" where
  "getEffectiveLock t1 t2 ptm w =
     (case loadCurrentLocks t1 (lockManager ptm) w of
        (Inl e, lm1, w1) \<Rightarrow> (Inl e, ptm\<lparr>lockManager := lm1\<rparr>, w1)
      | (Inr l, lm1, w1) \<Rightarrow>
          (case getLockToApply t2 lm1 w1 of
             (r, lm2, w2) \<Rightarrow> (r, ptm\<lparr>lockManager := lm2\<rparr>, w2)))"

text \<open>
  The confirmation step of mode Ask, shared by both handlers from the point where the
  popup is shown: \<^verbatim>\<open>popup.show()\<close>, then the application if the user confirms.
\<close>

definition askAndApply ::
  "string \<Rightarrow> promptTemplateManager \<Rightarrow> world \<Rightarrow> error option \<times> promptTemplateManager \<times> world" where
  "askAndApply tid ptm w =
     (case callHost PopupShow w of
        Inl e \<Rightarrow> (Some e, ptm, w)
      | Inr w1 \<Rightarrow>
          (if popupAnswer w1
           then (let (ok, w2) = applyTemplate tid ptm w1 in (None, ptm, toast ToastSuccess w2))
           else (None, ptm, w1)))"

text \<open>
  A handler returns the exception that rejected its promise, if any. The time arguments
  are the readings of the clock at its successive \<^verbatim>\<open>getCurrent\<close> calls.
\<close>

definition handlePresetChange ::
  "int \<Rightarrow> int \<Rightarrow> int \<Rightarrow> promptTemplateManager \<Rightarrow> world
     \<Rightarrow> error option \<times> promptTemplateManager \<times> world" where
  "handlePresetChange t1 t2 t3 ptm w =
     (let autoApplyMode = configuredAutoApplyMode w in
      if autoApplyMode = AUTO_NEVER then (None, ptm, w)
      else case getEffectiveLock t1 t2 ptm w of
             (Inl e, ptm1, w1) \<Rightarrow> (Some e, ptm1, w1)
           | (Inr effectiveLock, ptm1, w1) \<Rightarrow>
               (case templateId effectiveLock of
                  None \<Rightarrow> (None, ptm1, w1)
                | Some tid \<Rightarrow>
                    (if tid = [] then (None, ptm1, w1)
                     else if autoApplyMode = AUTO_ASK then
                       (case getCurrent t3 w1 (chatContext (lockManager ptm1)) of
                          (Inl e, cc, w2) \<Rightarrow>
                            (Some e, ptm1\<lparr>lockManager := (lockManager ptm1)\<lparr>chatContext := cc\<rparr>\<rparr>, w2)
                        | (Inr ctx, cc, w2) \<Rightarrow>
                            (let ptm2 = ptm1\<lparr>lockManager := (lockManager ptm1)\<lparr>chatContext := cc\<rparr>\<rparr>
                             in case getTemplate ptm2 tid of
                                  None \<Rightarrow> (None, ptm2, w2)
                                | Some template \<Rightarrow> askAndApply tid ptm2 w2))
                     else if autoApplyMode = AUTO_ALWAYS then
                       (case getTemplate ptm1 tid of
                          None \<Rightarrow> (None, ptm1, w1)
                        | Some template \<Rightarrow>
                            (let (ok, w2) = applyTemplate tid ptm1 w1
                             in (None, ptm1, toast ToastInfo w2)))
                     else (None, ptm1, w1))))"

definition handleChatChange ::
  "int \<Rightarrow> int \<Rightarrow> int \<Rightarrow> int \<Rightarrow> promptTemplateManager \<Rightarrow> world
     \<Rightarrow> error option \<times> promptTemplateManager \<times> world" where
  "handleChatChange t0 t1 t2 t3 ptm w =
     (let lm0 = (lockManager ptm)\<lparr>chatContext := invalidate (chatContext (lockManager ptm))\<rparr> in
      case loadCurrentLocks t0 lm0 w of
        (Inl e, lm1, w1) \<Rightarrow> (Some e, ptm\<lparr>lockManager := lm1\<rparr>, w1)
      | (Inr l, lm1, w1) \<Rightarrow>
          (let ptm1 = ptm\<lparr>lockManager := lm1\<rparr>;
               autoApplyMode = configuredAutoApplyMode w1 in
           if autoApplyMode = AUTO_NEVER then (None, ptm1, w1)
           else case getEffectiveLock t1 t2 ptm1 w1 of
                  (Inl e, ptm2, w2) \<Rightarrow> (Some e, ptm2, w2)
                | (Inr effectiveLock, ptm2, w2) \<Rightarrow>
                    (case templateId effectiveLock of
                       None \<Rightarrow> (None, ptm2, w2)
                     | Some tid \<Rightarrow>
                         (if tid = [] then (None, ptm2, w2)
                          else case getTemplate ptm2 tid of
                                 None \<Rightarrow> (None, ptm2, w2)
                               | Some template \<Rightarrow>
                                   (if autoApplyMode = AUTO_ASK then
                                      (case getCurrent t3 w2 (chatContext (lockManager ptm2)) of
                                         (Inl e, cc, w3) \<Rightarrow>
                                           (Some e,
                                            ptm2\<lparr>lockManager :=
                                                   (lockManager ptm2)\<lparr>chatContext := cc\<rparr>\<rparr>, w3)
                                       | (Inr ctx, cc, w3) \<Rightarrow>
                                           askAndApply tid
                                             (ptm2\<lparr>lockManager :=
                                                     (lockManager ptm2)\<lparr>chatContext := cc\<rparr>\<rparr>) w3)
                                    else if autoApplyMode = AUTO_ALWAYS then
                                      (let (ok, w3) = applyTemplate tid ptm2 w2
                                       in (None, ptm2, toast ToastInfo w3))
                                    else (None, ptm2, w2))))))"


section \<open>Observations\<close>

text \<open>The host calls that ran, in order: the flushes and renders that happened.\<close>

definition hostCalls :: "world \<Rightarrow> hostFn list" where
  "hostCalls w = concat (map (\<lambda>ev. case ev of HostCall f \<Rightarrow> [f] | _ \<Rightarrow> []) (events w))"

text \<open>The entries into \<^verbatim>\<open>applyTemplate\<close>, in order.\<close>

definition applyCalls :: "world \<Rightarrow> string list" where
  "applyCalls w =
     concat (map (\<lambda>ev. case ev of ApplyTemplateEntered t \<Rightarrow> [t] | _ \<Rightarrow> []) (events w))"

text \<open>The three storage regions of the lock stores.\<close>

definition storageRegions ::
  "world \<Rightarrow> extensionSettings option \<times> chatMetadata nullable \<times> groupRec option list option" where
  "storageRegions w = (ext_CCPM w, chat_metadata w, groups w)"

text \<open>
  The live prompt state: \<^verbatim>\<open>oai_settings.prompts\<close>, \<^verbatim>\<open>oai_settings.prompt_order\<close> and the
  prompt manager with its active character.
\<close>

definition livePromptState ::
  "world \<Rightarrow> prompt list option \<times> promptOrderEntry option list option \<times> promptManagerRec option" where
  "livePromptState w = (oai_prompts w, oai_prompt_order w, promptManager w)"

text \<open>
  What no function of the lock manager changes, and what the handlers leave alone when
  they skip the application.
\<close>

definition autoApplyFrame ::
  "world \<Rightarrow> prompt list option \<times> promptOrderEntry option list option \<times> string list \<times> string option" where
  "autoApplyFrame w = (oai_prompts w, oai_prompt_order w, applyCalls w, ext_autoApplyMode w)"


text \<open>A resolution that gives no template to apply: it threw, or its template id is null or empty.\<close>

definition noTemplateResolved :: "error + lockResult \<Rightarrow> bool" where
  "noTemplateResolved r = (case r of Inl e \<Rightarrow> True | Inr l \<Rightarrow> \<not> truthy (templateId l))"

text \<open>
  The effective lock that \<^verbatim>\<open>handleChatChange\<close> resolves: after it has invalidated the
  cache and loaded the locks.
\<close>

definition chatChangeEffectiveLock ::
  "int \<Rightarrow> int \<Rightarrow> int \<Rightarrow> promptTemplateManager \<Rightarrow> world \<Rightarrow> error + lockResult" where
  "chatChangeEffectiveLock t0 t1 t2 ptm w =
     (let lm0 = (lockManager ptm)\<lparr>chatContext := invalidate (chatContext (lockManager ptm))\<rparr> in
      case loadCurrentLocks t0 lm0 w of
        (Inl e, lm1, w1) \<Rightarrow> Inl e
      | (Inr l, lm1, w1) \<Rightarrow> fst (getEffectiveLock t1 t2 (ptm\<lparr>lockManager := lm1\<rparr>) w1))"

section \<open>Example inputs\<close>

definition exSingleCtx :: snapshot where
  "exSingleCtx =
     \<lparr>ctype = SINGLE, isGroupChat = False, groupId = None, groupName = None,
      chatId = Some ''chat-1'', chatName = Some ''chat-1'', characterName = Some ''Alice'',
      primaryId = Some ''Alice'', secondaryId = Some ''chat-1''\<rparr>"

definition exGroupCtx :: snapshot where
  "exGroupCtx =
     \<lparr>ctype = GROUP, isGroupChat = True, groupId = Some ''g1'', groupName = Some ''Party'',
      chatId = Some ''gchat-1'', chatName = Some ''Party'', characterName = Some ''Party'',
      primaryId = Some ''g1'', secondaryId = Some ''gchat-1''\<rparr>"

definition exPrompt :: prompt where
  "exPrompt = \<lparr>p_identifier = ''main'', role = ''system'', content = ''You are helpful.''\<rparr>"

definition exWorld :: world where
  "exWorld =
     \<lparr>selected_group = None,
      groups = Some [Some \<lparr>g_id = ''g1'', g_name = Some ''Party'', g_chat_id = Some ''gchat-1'',
                           ccpm_template_lock = None\<rparr>],
      name2 = Some ''Alice'',
      systemUserName = ''SillyTavern System'',
      neutralCharacterName = ''Assistant'',
      chat_metadata = Obj \<lparr>character_name = None, md_CCPM = None\<rparr>,
      getContext_chatId = Inr (Some ''chat-1''),
      characters = Some [Some ''Bob'', Some ''Alice''],
      ext_CCPM = None,
      ext_autoApplyMode = None,
      oai_prompts = Some [exPrompt],
      oai_prompt_order = None,
      promptManager = Some \<lparr>activeCharacter = None\<rparr>,
      throwing = [],
      popupAnswer = True,
      events = []\<rparr>"

definition exGroupWorld :: world where
  "exGroupWorld = exWorld\<lparr>selected_group := Some ''g1''\<rparr>"

definition exBrokenWorld :: world where
  "exBrokenWorld = exWorld\<lparr>selected_group := Some ''g1'', groups := Some [None]\<rparr>"

definition exWorldBob :: world where
  "exWorldBob = exWorld\<lparr>name2 := Some ''Bob''\<rparr>"



definition exNeverWorld :: world where
  "exNeverWorld =
     exWorld\<lparr>ext_autoApplyMode := Some ''never'',
             chat_metadata := Obj \<lparr>character_name = None,
                                   md_CCPM = Some \<lparr>templateLock = Some ''tmpl_a''\<rparr>\<rparr>\<rparr>"

definition exAlwaysWorld :: world where
  "exAlwaysWorld = exWorld\<lparr>ext_autoApplyMode := Some ''always''\<rparr>"

definition exBuiltCache :: chatContext where
  "exBuiltCache = fst (snd (getCurrent 5000 exWorld newChatContext))"

definition exEmptyTemplate :: promptTemplate where
  "exEmptyTemplate =
     \<lparr>tmpl_id = ''tmpl_empty'', tmpl_name = ''Empty'', prompts = [], promptOrder = [],
      promptOrderCharacterId = None\<rparr>"

definition exTemplate :: promptTemplate where
  "exTemplate =
     \<lparr>tmpl_id = ''tmpl_a'', tmpl_name = ''A'',
      prompts = [(''main'', \<lparr>p_identifier = ''main'', role = ''system'', content = ''Be brief.''\<rparr>)],
      promptOrder = [\<lparr>oe_identifier = ''main'', enabled = True\<rparr>],
      promptOrderCharacterId = None\<rparr>"

definition exManager :: promptTemplateManager where
  "exManager =
     \<lparr>templates = [(''tmpl_empty'', exEmptyTemplate), (''tmpl_a'', exTemplate)],
      lockManager = newTemplateLockManager\<rparr>"

section \<open>Properties of the resolver\<close>

lemmas resolver_defs =
  resolve_def resolveSingleLocks_def resolveGroupLocks_def legacy_resolve_def
  legacy_resolveSingleLocks_def legacy_resolveGroupLocks_def noneResult_def
  SRC_CHARACTER_def SRC_CHAT_def SRC_GROUP_def SRC_GROUP_CHAT_def

text \<open>
  C2. In a single chat, for every preference and every lock set whose slots are null or
  a non-empty template id, \<^verbatim>\<open>resolve\<close> returns the template id of the highest-ranked
  scope kind of \<open>{Character, Chat}\<close> that has a lock, and its source label names that
  scope kind; with no lock its template id is null (and the label names no scope).
\<close>

theorem resolve_single_ranking:
  assumes "\<not> isGroupChat ctx" and "wellFormedLocks L"
  shows "(templateId (resolve P ctx L), sourceScope (source (resolve P ctx L)))
           = specResolve (singleRanking P) L"
  using assms
  by (cases "character L"; cases "chat L")
     (auto simp: resolver_defs specResolve_def singleRanking_def wellFormedLocks_def
        truthy_def sourceScope_def)

text \<open>Scenario A: Character locked to T1, Chat locked to T2, Character over Chat.\<close>

theorem resolve_single_ranking_witness:
  "\<not> isGroupChat exSingleCtx
   \<and> wellFormedLocks \<lparr>character = Some ''T1'', chat = Some ''T2'', group = None\<rparr>
   \<and> templateId (resolve defaultSettings exSingleCtx
        \<lparr>character = Some ''T1'', chat = Some ''T2'', group = None\<rparr>) = Some ''T1''
   \<and> sourceScope (source (resolve defaultSettings exSingleCtx
        \<lparr>character = Some ''T1'', chat = Some ''T2'', group = None\<rparr>)) = Some Character"
  using resolve_single_ranking [of exSingleCtx
      "\<lparr>character = Some ''T1'', chat = Some ''T2'', group = None\<rparr>" defaultSettings]
  by (simp add: exSingleCtx_def wellFormedLocks_def specResolve_def singleRanking_def
      defaultSettings_def)

text \<open>
  C3. In a group chat, for every preference and every well-formed lock set, \<^verbatim>\<open>resolve\<close>
  returns the lock of the highest-ranked scope kind of \<open>{Group, GroupSession, Character}\<close>
  that has one, or nothing. With the default preference the ranking is Group, then
  GroupSession, then Character; the locks Group T3, GroupSession T4, Character T5 resolve
  to T3 from the group, and once the group lock is cleared to T4 from the group session.
\<close>

theorem resolve_group_ranking:
  assumes "isGroupChat ctx"
  shows "(wellFormedLocks L \<longrightarrow>
            (templateId (resolve P ctx L), sourceScope (source (resolve P ctx L)))
              = specResolve (groupRanking P) L)
         \<and> (groupRanking defaultSettings = [Group, GroupSession, Character]
            \<and> resolve defaultSettings ctx
                 \<lparr>character = Some ''T5'', chat = Some ''T4'', group = Some ''T3''\<rparr>
               = \<lparr>templateId = Some ''T3'', source = ''group''\<rparr>
            \<and> resolve defaultSettings ctx
                 \<lparr>character = Some ''T5'', chat = Some ''T4'', group = None\<rparr>
               = \<lparr>templateId = Some ''T4'', source = ''group chat (fallback)''\<rparr>)"
proof (intro conjI impI)
  assume "wellFormedLocks L"
  with assms show "(templateId (resolve P ctx L), sourceScope (source (resolve P ctx L)))
              = specResolve (groupRanking P) L"
    by (cases "character L"; cases "chat L"; cases "group L")
       (auto simp: resolver_defs specResolve_def groupRanking_def wellFormedLocks_def
          truthy_def sourceScope_def)
next
  show "groupRanking defaultSettings = [Group, GroupSession, Character]"
    by (simp add: groupRanking_def defaultSettings_def)
next
  from assms show "resolve defaultSettings ctx
                 \<lparr>character = Some ''T5'', chat = Some ''T4'', group = Some ''T3''\<rparr>
               = \<lparr>templateId = Some ''T3'', source = ''group''\<rparr>"
    by (simp add: resolver_defs defaultSettings_def truthy_def)
next
  from assms show "resolve defaultSettings ctx
                 \<lparr>character = Some ''T5'', chat = Some ''T4'', group = None\<rparr>
               = \<lparr>templateId = Some ''T4'', source = ''group chat (fallback)''\<rparr>"
    by (simp add: resolver_defs defaultSettings_def truthy_def)
qed

text \<open>The worked example: only the group session is locked, under a non-default order.\<close>

theorem resolve_group_ranking_witness:
  "isGroupChat exGroupCtx
   \<and> wellFormedLocks \<lparr>character = None, chat = Some ''T2'', group = None\<rparr>
   \<and> templateId (resolve (defaultSettings\<lparr>preferGroupOverChat := False\<rparr>) exGroupCtx
        \<lparr>character = None, chat = Some ''T2'', group = None\<rparr>) = Some ''T2''
   \<and> sourceScope (source (resolve (defaultSettings\<lparr>preferGroupOverChat := False\<rparr>) exGroupCtx
        \<lparr>character = None, chat = Some ''T2'', group = None\<rparr>)) = Some GroupSession"
  using resolve_group_ranking [of exGroupCtx
      "\<lparr>character = None, chat = Some ''T2'', group = None\<rparr>"
      "defaultSettings\<lparr>preferGroupOverChat := False\<rparr>"]
  by (simp add: exGroupCtx_def wellFormedLocks_def specResolve_def groupRanking_def
      defaultSettings_def)

text \<open>
  C10. Under the default preferences the current resolver and the legacy resolver return
  the same template id, for every snapshot and every lock set.
\<close>

theorem resolve_default_agrees_with_legacy:
  "templateId (resolve defaultSettings ctx L) = templateId (legacy_resolve defaultSettings ctx L)"
  by (simp add: resolver_defs defaultSettings_def)

section \<open>Properties of the context probe\<close>

lemmas probe_defs =
  getCurrent_def rebuildCurrent_def buildContext_def buildGroupContext_def
  buildSingleContext_def getCharacterNameForSettings_def resolvedCharacterName_def
  getCharacterNameFromChatMetadata_def getCurrentChatId_def groupsFind_def CACHE_TTL_def
  toast_def truthy_def orNull_def jsTrim_def isWhiteSpace_def normalizeNFC_def Let_def

text \<open>
  C7. If building the snapshot throws: when a cached snapshot exists, \<^verbatim>\<open>getCurrent\<close>
  returns that snapshot and does not throw, and the cache is left as it was; when no
  snapshot is cached, \<^verbatim>\<open>getCurrent\<close> throws the same exception.
\<close>

theorem getCurrent_build_failure:
  assumes "buildContext w = Inl e"
  shows "(cache cc = Some c \<longrightarrow>
            fst (getCurrent now w cc) = Inr c \<and> fst (snd (getCurrent now w cc)) = cc)
         \<and> (cache cc = None \<longrightarrow> fst (getCurrent now w cc) = Inl e)"
  using assms by (simp add: getCurrent_def rebuildCurrent_def)

text \<open>A group is selected and the host's group list holds a null entry.\<close>

theorem getCurrent_build_failure_witness:
  "buildContext exBrokenWorld = Inl TypeError
   \<and> fst (getCurrent 5000 exBrokenWorld \<lparr>cache = Some exGroupCtx, cacheTime = 0\<rparr>) = Inr exGroupCtx
   \<and> fst (getCurrent 5000 exBrokenWorld \<lparr>cache = None, cacheTime = 0\<rparr>) = Inl TypeError"
proof -
  have b: "buildContext exBrokenWorld = Inl TypeError"
    by (simp add: exBrokenWorld_def exWorld_def probe_defs)
  from getCurrent_build_failure [OF b, of "\<lparr>cache = Some exGroupCtx, cacheTime = 0\<rparr>" exGroupCtx 5000]
       getCurrent_build_failure [OF b, of "\<lparr>cache = None, cacheTime = 0\<rparr>" exGroupCtx 5000] b
  show ?thesis by simp
qed

lemma exBuiltCache_eq: "exBuiltCache = \<lparr>cache = Some exSingleCtx, cacheTime = 5000\<rparr>"
  by (simp add: exBuiltCache_def exWorld_def newChatContext_def exSingleCtx_def probe_defs)

text \<open>
  C8 as stated fails: a snapshot built at time 5000 is returned by a call at 5900, and a
  call at 6500, only 600 ms later and with nothing invalidated in between, rebuilds: the
  snapshot is then older than the time to live, which counts from the build and not from
  the last call. The rebuilt snapshot differs once the host state has changed.
\<close>

theorem getCurrent_within_ttl_counterexample:
  "(6500::int) - 5900 < CACHE_TTL
   \<and> fst (getCurrent 5900 exWorld exBuiltCache) = Inr exSingleCtx
   \<and> fst (snd (getCurrent 5900 exWorld exBuiltCache)) = exBuiltCache
   \<and> fst (getCurrent 6500 exWorldBob exBuiltCache) \<noteq> Inr exSingleCtx
   \<and> fst (snd (getCurrent 6500 exWorld exBuiltCache)) \<noteq> exBuiltCache"
  by (simp add: exBuiltCache_eq exWorldBob_def exWorld_def exSingleCtx_def probe_defs)

text \<open>
  C8, amended. When a call of \<^verbatim>\<open>getCurrent\<close> returned a snapshot, every later call made,
  with no \<^verbatim>\<open>invalidate\<close> in between, less than 1000 ms after the time the cached snapshot
  was built returns the same snapshot and leaves the cache as it is, whatever the host
  state has become; the snapshot was built at the time of the first call whenever that
  call had to build it and the build succeeded.
\<close>

theorem getCurrent_cache_hit:
  assumes "getCurrent t1 w cc = (Inr c, cc1, w1)"
  shows "(t2 - cacheTime cc1 < CACHE_TTL \<longrightarrow> getCurrent t2 w' cc1 = (Inr c, cc1, w'))
         \<and> ((cache cc = None \<or> CACHE_TTL \<le> t1 - cacheTime cc) \<and> \<not> isl (buildContext w)
              \<longrightarrow> cacheTime cc1 = t1)"
  using assms
  by (auto simp: getCurrent_def rebuildCurrent_def Let_def split: option.splits sum.splits if_splits)

theorem getCurrent_cache_hit_witness:
  "getCurrent 5000 exWorld newChatContext = (Inr exSingleCtx, exBuiltCache, exWorld)
   \<and> (5900::int) - cacheTime exBuiltCache < CACHE_TTL
   \<and> getCurrent 5900 exWorldBob exBuiltCache = (Inr exSingleCtx, exBuiltCache, exWorldBob)
   \<and> cacheTime exBuiltCache = 5000"
proof -
  have a: "getCurrent 5000 exWorld newChatContext = (Inr exSingleCtx, exBuiltCache, exWorld)"
    by (simp add: exBuiltCache_eq exWorld_def newChatContext_def exSingleCtx_def probe_defs)
  have b: "(5900::int) - cacheTime exBuiltCache < CACHE_TTL"
    by (simp add: exBuiltCache_eq CACHE_TTL_def)
  have c: "cache newChatContext = None" "\<not> isl (buildContext exWorld)"
    by (simp_all add: newChatContext_def exWorld_def probe_defs)
  from getCurrent_cache_hit [OF a, of 5900 exWorldBob] a b c show ?thesis by simp
qed

section \<open>Properties of the lock stores\<close>

lemmas storage_defs =
  setGroupChatTemplateLock_def deleteGroupChatTemplateLock_def setChatTemplateLock_def
  deleteChatTemplateLock_def triggerMetadataSave_def metadataSetLock_def metadataDeleteLock_def
  metadataLock_def callHost_def toast_def truthy_def hostCalls_def Let_def

lemmas manager_defs =
  loadCurrentLocks_def loadSingleLocks_def loadGroupLocks_def loadCharacterLock_def
  charactersFindIndex_def characterKeyOf_def getCharacterTemplateLock_def
  getExtensionSettings_def freshExtensionSettings_def characterLockEntry_def
  getChatTemplateLock_def metadataLock_def getEffectiveLock_def getLockToApply_def
  getEmptyLocks_def invalidate_def newTemplateLockManager_def newChatContext_def

text \<open>
  The character region flushes with \<^verbatim>\<open>saveSettingsDebounced\<close> and the group region with
  \<^verbatim>\<open>editGroup\<close> before they report success; the chat region does when the call to
  \<^verbatim>\<open>saveMetadataDebounced\<close> does not throw. The group-session region never flushes.
\<close>

lemma getGroupChat_flush [simp]:
  "hostCalls (snd (setGroupChatTemplateLock g tid w)) = hostCalls w"
  "hostCalls (snd (deleteGroupChatTemplateLock g w)) = hostCalls w"
  by (simp_all add: setGroupChatTemplateLock_def deleteGroupChatTemplateLock_def hostCalls_def
      toast_def split: nullable.splits)

lemma hostCalls_callHost:
  "callHost f w = Inr w' \<Longrightarrow> hostCalls w' = hostCalls w @ [f]"
  by (auto simp: callHost_def hostCalls_def split: if_splits)

lemma hostCalls_getExtensionSettings [simp]:
  "hostCalls (snd (getExtensionSettings w)) = hostCalls w"
  by (simp add: getExtensionSettings_def hostCalls_def split: option.splits)

lemma setCharacterTemplateLock_flushes:
  assumes "setCharacterTemplateLock k tid w = (Inr True, w')"
  shows "hostCalls w' = hostCalls w @ [SaveSettingsDebounced]"
proof (cases k)
  case None
  with assms show ?thesis by (simp add: setCharacterTemplateLock_def)
next
  case (Some a)
  obtain es w1 where e: "getExtensionSettings w = (es, w1)" by (cases "getExtensionSettings w")
  with hostCalls_getExtensionSettings [of w] have h: "hostCalls w1 = hostCalls w" by simp
  from assms Some e h show ?thesis
    by (auto simp: setCharacterTemplateLock_def saveExtensionSettings_def Let_def hostCalls_def
        callHost_def split: sum.splits if_splits)
qed

lemma deleteCharacterTemplateLock_flushes:
  assumes "deleteCharacterTemplateLock k w = (Inr True, w')"
  shows "hostCalls w' = hostCalls w @ [SaveSettingsDebounced]"
proof (cases k)
  case None
  with assms show ?thesis by (simp add: deleteCharacterTemplateLock_def)
next
  case (Some a)
  obtain es w1 where e: "getExtensionSettings w = (es, w1)" by (cases "getExtensionSettings w")
  with hostCalls_getExtensionSettings [of w] have h: "hostCalls w1 = hostCalls w" by simp
  from assms Some e h show ?thesis
    by (auto simp: deleteCharacterTemplateLock_def saveExtensionSettings_def Let_def hostCalls_def
        callHost_def split: sum.splits if_splits)
qed

lemma hostCalls_groupsUpdate [simp]: "hostCalls (groupsUpdate g f w) = hostCalls w"
  by (simp add: groupsUpdate_def hostCalls_def split: option.splits)

lemma throwing_groupsUpdate [simp]: "throwing (groupsUpdate g f w) = throwing w"
  by (simp add: groupsUpdate_def split: option.splits)

lemma setGroupTemplateLock_flushes:
  "setGroupTemplateLock g tid w = (True, w') \<Longrightarrow> hostCalls w' = hostCalls w @ [EditGroup]"
  by (auto simp: setGroupTemplateLock_def Let_def hostCalls_callHost
      split: option.splits sum.splits if_splits)

lemma deleteGroupTemplateLock_flushes:
  "deleteGroupTemplateLock g w = (True, w') \<Longrightarrow> hostCalls w' = hostCalls w @ [EditGroup]"
  by (auto simp: deleteGroupTemplateLock_def Let_def hostCalls_callHost
      split: option.splits sum.splits if_splits)

lemma setChatTemplateLock_flushes:
  "SaveMetadataDebounced \<notin> set (throwing w) \<Longrightarrow> setChatTemplateLock tid w = (True, w')
     \<Longrightarrow> hostCalls w' = hostCalls w @ [SaveMetadataDebounced]"
  by (auto simp: setChatTemplateLock_def triggerMetadataSave_def callHost_def hostCalls_def
      split: nullable.splits)

lemma deleteChatTemplateLock_flushes:
  "SaveMetadataDebounced \<notin> set (throwing w) \<Longrightarrow> deleteChatTemplateLock w = (True, w')
     \<Longrightarrow> hostCalls w' = hostCalls w @ [SaveMetadataDebounced]"
  by (auto simp: deleteChatTemplateLock_def triggerMetadataSave_def callHost_def hostCalls_def
      split: nullable.splits if_splits)

text \<open>
  C4 fails on the code. In a group chat a lock written to the group-session region
  reports success, and so does its removal, and neither calls a flush; the same holds
  through \<^verbatim>\<open>setLock\<close> of the lock manager. The chat region of a single chat does call
  the flush, but reports success as well when that call throws.
\<close>

theorem lock_write_without_flush:
  "fst (setGroupChatTemplateLock (Some ''g1'') ''tmpl_a'' exGroupWorld) = True
   \<and> fst (getGroupChatTemplateLock (Some ''g1'')
        (snd (setGroupChatTemplateLock (Some ''g1'') ''tmpl_a'' exGroupWorld))) = Some ''tmpl_a''
   \<and> hostCalls (snd (setGroupChatTemplateLock (Some ''g1'') ''tmpl_a'' exGroupWorld)) = []
   \<and> fst (deleteGroupChatTemplateLock (Some ''g1'')
        (snd (setGroupChatTemplateLock (Some ''g1'') ''tmpl_a'' exGroupWorld))) = True
   \<and> hostCalls (snd (deleteGroupChatTemplateLock (Some ''g1'')
        (snd (setGroupChatTemplateLock (Some ''g1'') ''tmpl_a'' exGroupWorld)))) = []
   \<and> fst (setLock ''chat'' ''tmpl_a'' 5000 newTemplateLockManager exGroupWorld) = Inr True
   \<and> hostCalls (snd (snd (setLock ''chat'' ''tmpl_a'' 5000 newTemplateLockManager exGroupWorld))) = []
   \<and> fst (setChatTemplateLock ''tmpl_a'' exWorld) = True
   \<and> hostCalls (snd (setChatTemplateLock ''tmpl_a'' exWorld)) = [SaveMetadataDebounced]
   \<and> fst (setChatTemplateLock ''tmpl_a'' (exWorld\<lparr>throwing := [SaveMetadataDebounced]\<rparr>)) = True
   \<and> hostCalls (snd (setChatTemplateLock ''tmpl_a''
        (exWorld\<lparr>throwing := [SaveMetadataDebounced]\<rparr>))) = []"
  by (simp add: storage_defs getGroupChatTemplateLock_def orNull_def setLock_def probe_defs
      newTemplateLockManager_def newChatContext_def exGroupWorld_def exWorld_def)

section \<open>Properties of the lock manager\<close>

text \<open>Every lock getter ends in \<^verbatim>\<open>|| null\<close>, so the lock set that is loaded is well formed.\<close>

lemma orNull_wf [simp]: "orNull v \<noteq> Some []"
  by (cases v) (auto simp: orNull_def truthy_def)

lemma getCharacterTemplateLock_wf [simp]: "fst (getCharacterTemplateLock k w) \<noteq> Some []"
  by (simp add: getCharacterTemplateLock_def Let_def split: option.splits prod.splits)

lemma getGroupTemplateLock_wf [simp]: "fst (getGroupTemplateLock g w) \<noteq> Some []"
  by (simp add: getGroupTemplateLock_def split: option.splits sum.splits)

lemma getGroupChatTemplateLock_wf [simp]: "fst (getGroupChatTemplateLock g w) \<noteq> Some []"
  by (simp add: getGroupChatTemplateLock_def split: nullable.splits)

lemma getChatTemplateLock_wf [simp]: "getChatTemplateLock w \<noteq> Some []"
  by (simp add: getChatTemplateLock_def split: nullable.splits)

lemma loadCharacterLock_wf:
  assumes "wellFormedLocks (currentLocks lm)"
  shows "wellFormedLocks (currentLocks (fst (snd (loadCharacterLock c lm w))))"
proof (cases "characterName c")
  case None
  with assms show ?thesis by (simp add: loadCharacterLock_def)
next
  case (Some n)
  show ?thesis
  proof (cases "charactersFindIndex w n")
    case (Inl e)
    with Some assms show ?thesis by (simp add: loadCharacterLock_def)
  next
    case (Inr chId)
    obtain l w1 where e: "getCharacterTemplateLock (characterKeyOf chId n) w = (l, w1)"
      by (cases "getCharacterTemplateLock (characterKeyOf chId n) w")
    with getCharacterTemplateLock_wf [of "characterKeyOf chId n" w] have "l \<noteq> Some []" by simp
    with Some Inr e assms show ?thesis
      by (simp add: loadCharacterLock_def wellFormedLocks_def)
  qed
qed

lemma loadGroupLocks_wf:
  assumes "wellFormedLocks (currentLocks lm)"
  shows "wellFormedLocks (currentLocks (fst (snd (loadGroupLocks c lm w))))"
proof (cases "truthy (groupId c)")
  case False
  with loadCharacterLock_wf [OF assms] show ?thesis by (simp add: loadGroupLocks_def)
next
  case True
  obtain g w1 where e1: "getGroupTemplateLock (groupId c) w = (g, w1)"
    by (cases "getGroupTemplateLock (groupId c) w")
  obtain ch w2 where e2: "getGroupChatTemplateLock (groupId c) w1 = (ch, w2)"
    by (cases "getGroupChatTemplateLock (groupId c) w1")
  from getGroupTemplateLock_wf [of "groupId c" w] e1 have g: "g \<noteq> Some []" by simp
  from getGroupChatTemplateLock_wf [of "groupId c" w1] e2 have ch: "ch \<noteq> Some []" by simp
  let ?lm2 = "lm\<lparr>currentLocks := (currentLocks lm)\<lparr>group := g, chat := ch\<rparr>\<rparr>"
  from assms g ch have "wellFormedLocks (currentLocks ?lm2)" by (simp add: wellFormedLocks_def)
  from loadCharacterLock_wf [OF this] True e1 e2 show ?thesis by (simp add: loadGroupLocks_def)
qed

lemma loadSingleLocks_wf:
  assumes "wellFormedLocks (currentLocks lm)"
  shows "wellFormedLocks (currentLocks (fst (snd (loadSingleLocks c lm w))))"
proof -
  obtain r lm1 w1 where e: "loadCharacterLock c lm w = (r, lm1, w1)"
    by (cases "loadCharacterLock c lm w") auto
  with loadCharacterLock_wf [OF assms, of c w] have "wellFormedLocks (currentLocks lm1)" by simp
  with e show ?thesis
    by (cases r) (simp_all add: loadSingleLocks_def wellFormedLocks_def)
qed

text \<open>The lock set that loadCurrentLocks returns is well formed.\<close>

lemma loadCurrentLocks_wf:
  assumes "fst (loadCurrentLocks now lm w) = Inr l"
  shows "wellFormedLocks l"
proof -
  obtain r cc w1 where e: "getCurrent now w (chatContext lm) = (r, cc, w1)"
    by (cases "getCurrent now w (chatContext lm)") auto
  show ?thesis
  proof (cases r)
    case (Inl x)
    with e assms show ?thesis by (simp add: loadCurrentLocks_def)
  next
    case (Inr ctx)
    let ?lm1 = "lm\<lparr>chatContext := cc, currentLocks := getEmptyLocks\<rparr>"
    let ?load = "if isGroupChat ctx then loadGroupLocks ctx ?lm1 w1 else loadSingleLocks ctx ?lm1 w1"
    have w0: "wellFormedLocks (currentLocks ?lm1)"
      by (simp add: wellFormedLocks_def getEmptyLocks_def)
    obtain q lm2 w2 where e2: "?load = (q, lm2, w2)" by (cases ?load) auto
    from loadGroupLocks_wf [OF w0, of ctx w1] loadSingleLocks_wf [OF w0, of ctx w1]
    have "wellFormedLocks (currentLocks (fst (snd ?load)))" by simp
    with e2 have "wellFormedLocks (currentLocks lm2)" by simp
    with Inr e e2 assms show ?thesis
      by (cases q) (simp_all add: loadCurrentLocks_def Let_def)
  qed
qed

lemma hostCalls_toast [simp]: "hostCalls (toast k w) = hostCalls w"
  by (simp add: hostCalls_def toast_def)

lemma storageRegions_toast [simp]: "storageRegions (toast k w) = storageRegions w"
  by (simp add: storageRegions_def toast_def)








text \<open>
  For contrast, with the character Alice active the same call writes the lock under her
  index in \<^verbatim>\<open>characters\<close>, flushes the settings and mirrors the lock.
\<close>

lemma showInt_1: "showInt 1 = ''1''"
  by (simp add: showInt_def showNat.simps digitChar_def)

lemma setLock_character_example:
  "fst (setLock ''character'' ''tmpl_a'' 5000 newTemplateLockManager exWorld) = Inr True
   \<and> hostCalls (snd (snd (setLock ''character'' ''tmpl_a'' 5000 newTemplateLockManager exWorld)))
       = [SaveSettingsDebounced]
   \<and> character (currentLocks (fst (snd
         (setLock ''character'' ''tmpl_a'' 5000 newTemplateLockManager exWorld)))) = Some ''tmpl_a''
   \<and> fst (getCharacterTemplateLock (Some (Num 1))
         (snd (snd (setLock ''character'' ''tmpl_a'' 5000 newTemplateLockManager exWorld))))
       = Some ''tmpl_a''"
  by (simp add: setLock_def setCharacterTemplateLock_def saveExtensionSettings_def
      exWorld_def manager_defs probe_defs storage_defs showInt_1)

section \<open>Properties of applyTemplate\<close>

lemmas apply_defs =
  applyTemplate_def getTemplate_def restorePromptOrder_def callHost_def toast_def Let_def

text \<open>
  C1 fails on the code. A template with no prompts is applied: \<^verbatim>\<open>applyTemplate\<close>
  returns true and replaces the live prompts by the empty list.
\<close>

theorem applyTemplate_empty_template_overwrites:
  "prompts exEmptyTemplate = []
   \<and> getTemplate exManager ''tmpl_empty'' = Some exEmptyTemplate
   \<and> oai_prompts exWorld = Some [exPrompt]
   \<and> fst (applyTemplate ''tmpl_empty'' exManager exWorld) = True
   \<and> oai_prompts (snd (applyTemplate ''tmpl_empty'' exManager exWorld)) = Some []"
  by (simp add: apply_defs exManager_def exEmptyTemplate_def exWorld_def)

lemma replaceOrder_idem: "replaceOrder k ord (replaceOrder k ord po) = replaceOrder k ord po"
  by (induction k ord po rule: replaceOrder.induct) auto

lemma findOrderEntry_replaceOrder:
  "findOrderEntry k (replaceOrder k ord po) = findOrderEntry k po"
  by (induction k ord po rule: replaceOrder.induct) auto

lemma findOrderEntry_append:
  "findOrderEntry k po = Inr False \<Longrightarrow> jsString c = k
     \<Longrightarrow> findOrderEntry k (po @ [Some \<lparr>character_id = c, order = ord\<rparr>]) = Inr True"
  by (induction k po rule: findOrderEntry.induct) (auto split: if_splits)

lemma replaceOrder_append:
  "findOrderEntry k po = Inr False \<Longrightarrow> jsString c = k
     \<Longrightarrow> replaceOrder k ord (po @ [Some \<lparr>character_id = c, order = ord\<rparr>])
         = po @ [Some \<lparr>character_id = c, order = ord\<rparr>]"
  by (induction k po rule: findOrderEntry.induct) (auto split: if_splits)

text \<open>\<^verbatim>\<open>restorePromptOrder\<close> reads and writes only the order table and the prompt manager.\<close>

lemma restorePromptOrder_frame:
  "restorePromptOrder tmpl w = Inr w2 \<Longrightarrow>
     oai_prompts w2 = oai_prompts w \<and> events w2 = events w \<and> throwing w2 = throwing w"
  by (auto simp: restorePromptOrder_def Let_def split: sum.splits option.splits if_splits)

lemma restorePromptOrder_cong:
  "oai_prompt_order w' = oai_prompt_order w \<Longrightarrow> promptManager w' = promptManager w \<Longrightarrow>
     (case restorePromptOrder tmpl w of
        Inl e \<Rightarrow> restorePromptOrder tmpl w' = Inl e
      | Inr w2 \<Rightarrow> restorePromptOrder tmpl w'
           = Inr (w'\<lparr>oai_prompt_order := oai_prompt_order w2, promptManager := promptManager w2\<rparr>))"
  by (auto simp: restorePromptOrder_def Let_def split: sum.splits option.splits if_splits)

lemma map_option_idem_ac:
  "map_option (\<lambda>pm. pm\<lparr>activeCharacter := map_option (\<lambda>a. a\<lparr>ac_id := t\<rparr>) (activeCharacter pm)\<rparr>)
     (map_option (\<lambda>pm. pm\<lparr>activeCharacter := map_option (\<lambda>a. a\<lparr>ac_id := t\<rparr>) (activeCharacter pm)\<rparr>) x)
   = map_option (\<lambda>pm. pm\<lparr>activeCharacter := map_option (\<lambda>a. a\<lparr>ac_id := t\<rparr>) (activeCharacter pm)\<rparr>) x"
  by (cases x) (auto simp: option.map_comp comp_def split: option.splits)

lemma restorePromptOrder_idem:
  "restorePromptOrder tmpl w = Inr w2 \<Longrightarrow>
     \<exists>w3. restorePromptOrder tmpl w2 = Inr w3
          \<and> oai_prompt_order w3 = oai_prompt_order w2 \<and> promptManager w3 = promptManager w2"
  apply (auto simp: restorePromptOrder_def Let_def findOrderEntry_replaceOrder replaceOrder_idem
      findOrderEntry_append replaceOrder_append map_option_idem_ac
      split: sum.splits option.splits if_splits)
  done

lemma restorePromptOrder_manager:
  "restorePromptOrder tmpl w = Inr w2 \<Longrightarrow> (promptManager w2 = None) = (promptManager w = None)"
  by (auto simp: restorePromptOrder_def Let_def split: sum.splits option.splits if_splits)

text \<open>The live prompt state after an application, whatever the host calls do.\<close>

lemma applyTemplate_live:
  assumes "getTemplate ptm tid = Some tmpl" and "promptManager w = Some pm"
  shows "livePromptState (snd (applyTemplate tid ptm w)) =
           (case (if promptOrder tmpl \<noteq> []
                  then restorePromptOrder tmpl
                         (w\<lparr>events := events w @ [ApplyTemplateEntered tid],
                            oai_prompts := Some (map snd (prompts tmpl))\<rparr>)
                  else Inr (w\<lparr>events := events w @ [ApplyTemplateEntered tid],
                              oai_prompts := Some (map snd (prompts tmpl))\<rparr>)) of
              Inl e \<Rightarrow> (Some (map snd (prompts tmpl)), oai_prompt_order w, promptManager w)
            | Inr w2 \<Rightarrow> (Some (map snd (prompts tmpl)), oai_prompt_order w2, promptManager w2))"
proof (cases "promptOrder tmpl = []")
  case True
  with assms show ?thesis
    by (simp add: applyTemplate_def livePromptState_def callHost_def toast_def Let_def)
next
  case False
  show ?thesis
  proof (cases "restorePromptOrder tmpl
                  (w\<lparr>events := events w @ [ApplyTemplateEntered tid],
                     oai_prompts := Some (map snd (prompts tmpl))\<rparr>)")
    case (Inl e)
    with assms False show ?thesis
      by (simp add: applyTemplate_def livePromptState_def callHost_def toast_def Let_def)
  next
    case (Inr w2)
    from restorePromptOrder_frame [OF Inr]
    have "oai_prompts w2 = Some (map snd (prompts tmpl))" by simp
    with assms False Inr show ?thesis
      by (simp add: applyTemplate_def livePromptState_def callHost_def toast_def Let_def)
  qed
qed

text \<open>
  C5. Applying a template twice in a row leaves the live prompt state after the second
  application equal to the state after the first: the prompts, the prompt order table
  and the active character of the prompt manager. This holds for every template id,
  manager and host state, also when a host call throws.
\<close>

theorem applyTemplate_idempotent:
  "livePromptState (snd (applyTemplate tid ptm (snd (applyTemplate tid ptm w))))
     = livePromptState (snd (applyTemplate tid ptm w))"
proof (cases "getTemplate ptm tid")
  case None
  then show ?thesis
    by (simp add: applyTemplate_def livePromptState_def toast_def Let_def)
next
  case (Some tmpl)
  show ?thesis
  proof (cases "promptManager w")
    case None
    with Some show ?thesis
      by (simp add: applyTemplate_def livePromptState_def toast_def Let_def)
  next
    case pm: (Some pm)
    let ?P = "Some (map snd (prompts tmpl))"
    let ?v = "snd (applyTemplate tid ptm w)"
    let ?w1 = "w\<lparr>events := events w @ [ApplyTemplateEntered tid], oai_prompts := ?P\<rparr>"
    let ?v1 = "?v\<lparr>events := events ?v @ [ApplyTemplateEntered tid], oai_prompts := ?P\<rparr>"
    note live1 = applyTemplate_live [OF Some pm]
    show ?thesis
    proof (cases "promptOrder tmpl = []")
      case True
      with live1 have l: "livePromptState ?v = (?P, oai_prompt_order w, promptManager w)"
        by simp
      then have "promptManager ?v = Some pm" using pm by (simp add: livePromptState_def)
      from applyTemplate_live [OF Some this] True l show ?thesis
        by (simp add: livePromptState_def)
    next
      case False
      show ?thesis
      proof (cases "restorePromptOrder tmpl ?w1")
        case (Inl e)
        with live1 False
        have l: "livePromptState ?v = (?P, oai_prompt_order w, promptManager w)" by simp
        then have pmv: "promptManager ?v = Some pm" and ov: "oai_prompt_order ?v = oai_prompt_order w"
          using pm by (simp_all add: livePromptState_def)
        have "restorePromptOrder tmpl ?v1 = Inl e"
          using restorePromptOrder_cong [of ?v1 ?w1 tmpl] Inl pmv ov pm by simp
        with applyTemplate_live [OF Some pmv] False l show ?thesis
          by (simp add: livePromptState_def)
      next
        case (Inr w2)
        with live1 False
        have l: "livePromptState ?v = (?P, oai_prompt_order w2, promptManager w2)" by simp
        from restorePromptOrder_manager [OF Inr] pm obtain pm2 where pm2: "promptManager w2 = Some pm2"
          by auto
        from l pm2 have pmv: "promptManager ?v = Some pm2" and ov: "oai_prompt_order ?v = oai_prompt_order w2"
          and pv: "promptManager ?v = promptManager w2"
          by (simp_all add: livePromptState_def)
        from restorePromptOrder_idem [OF Inr] obtain w3 where
          w3: "restorePromptOrder tmpl w2 = Inr w3"
              "oai_prompt_order w3 = oai_prompt_order w2" "promptManager w3 = promptManager w2"
          by auto
        have "restorePromptOrder tmpl ?v1
                = Inr (?v1\<lparr>oai_prompt_order := oai_prompt_order w3, promptManager := promptManager w3\<rparr>)"
          using restorePromptOrder_cong [of ?v1 w2 tmpl] w3(1) pv ov by simp
        with applyTemplate_live [OF Some pmv] False l w3 show ?thesis
          by (simp add: livePromptState_def)
      qed
    qed
  qed
qed

theorem applyTemplate_idempotent_witness:
  "fst (applyTemplate ''tmpl_a'' exManager exWorld) = True
   \<and> livePromptState (snd (applyTemplate ''tmpl_a'' exManager exWorld)) \<noteq> livePromptState exWorld
   \<and> livePromptState (snd (applyTemplate ''tmpl_a'' exManager
         (snd (applyTemplate ''tmpl_a'' exManager exWorld))))
       = livePromptState (snd (applyTemplate ''tmpl_a'' exManager exWorld))"
proof -
  have a: "fst (applyTemplate ''tmpl_a'' exManager exWorld) = True
           \<and> livePromptState (snd (applyTemplate ''tmpl_a'' exManager exWorld)) \<noteq> livePromptState exWorld"
    by (simp add: apply_defs livePromptState_def exManager_def exTemplate_def exEmptyTemplate_def
        exWorld_def exPrompt_def)
  from applyTemplate_idempotent [of "''tmpl_a''" exManager exWorld] a show ?thesis by simp
qed

section \<open>Properties of the auto-apply handlers\<close>

lemma frame_toast [simp]: "autoApplyFrame (toast k w) = autoApplyFrame w"
  by (simp add: autoApplyFrame_def applyCalls_def toast_def)

lemma frame_getExtensionSettings [simp]:
  "autoApplyFrame (snd (getExtensionSettings w)) = autoApplyFrame w"
  by (simp add: autoApplyFrame_def applyCalls_def getExtensionSettings_def split: option.splits)

lemma frame_getCurrent [simp]:
  "autoApplyFrame (snd (snd (getCurrent now w cc))) = autoApplyFrame w"
  by (simp add: getCurrent_def rebuildCurrent_def Let_def split: option.splits sum.splits)

lemma frame_getCharacterTemplateLock [simp]:
  "autoApplyFrame (snd (getCharacterTemplateLock k w)) = autoApplyFrame w"
proof (cases k)
  case None
  then show ?thesis by (simp add: getCharacterTemplateLock_def)
next
  case (Some a)
  obtain es w1 where e: "getExtensionSettings w = (es, w1)" by (cases "getExtensionSettings w")
  with frame_getExtensionSettings [of w] have "autoApplyFrame w1 = autoApplyFrame w" by simp
  with Some e show ?thesis by (simp add: getCharacterTemplateLock_def)
qed

lemma frame_getGroupTemplateLock [simp]:
  "autoApplyFrame (snd (getGroupTemplateLock g w)) = autoApplyFrame w"
  by (simp add: getGroupTemplateLock_def split: option.splits sum.splits)

lemma frame_getGroupChatTemplateLock [simp]:
  "autoApplyFrame (snd (getGroupChatTemplateLock g w)) = autoApplyFrame w"
  by (simp add: getGroupChatTemplateLock_def split: nullable.splits)

lemma frame_loadCharacterLock [simp]:
  "autoApplyFrame (snd (snd (loadCharacterLock c lm w))) = autoApplyFrame w"
proof (cases "characterName c")
  case None
  then show ?thesis by (simp add: loadCharacterLock_def)
next
  case (Some n)
  show ?thesis
  proof (cases "charactersFindIndex w n")
    case (Inl e)
    with Some show ?thesis by (simp add: loadCharacterLock_def)
  next
    case (Inr chId)
    obtain l w1 where e: "getCharacterTemplateLock (characterKeyOf chId n) w = (l, w1)"
      by (cases "getCharacterTemplateLock (characterKeyOf chId n) w")
    with frame_getCharacterTemplateLock [of "characterKeyOf chId n" w]
    have "autoApplyFrame w1 = autoApplyFrame w" by simp
    with Some Inr e show ?thesis by (simp add: loadCharacterLock_def)
  qed
qed

lemma frame_loadGroupLocks [simp]:
  "autoApplyFrame (snd (snd (loadGroupLocks c lm w))) = autoApplyFrame w"
proof (cases "truthy (groupId c)")
  case False
  then show ?thesis by (simp add: loadGroupLocks_def)
next
  case True
  obtain g w1 where e1: "getGroupTemplateLock (groupId c) w = (g, w1)"
    by (cases "getGroupTemplateLock (groupId c) w")
  obtain ch w2 where e2: "getGroupChatTemplateLock (groupId c) w1 = (ch, w2)"
    by (cases "getGroupChatTemplateLock (groupId c) w1")
  from frame_getGroupTemplateLock [of "groupId c" w] e1
  have f1: "autoApplyFrame w1 = autoApplyFrame w" by simp
  from frame_getGroupChatTemplateLock [of "groupId c" w1] e2
  have f2: "autoApplyFrame w2 = autoApplyFrame w1" by simp
  from True e1 e2 f1 f2 show ?thesis by (simp add: loadGroupLocks_def)
qed

lemma frame_loadSingleLocks [simp]:
  "autoApplyFrame (snd (snd (loadSingleLocks c lm w))) = autoApplyFrame w"
proof -
  obtain r lm1 w1 where e: "loadCharacterLock c lm w = (r, lm1, w1)"
    by (cases "loadCharacterLock c lm w") auto
  with frame_loadCharacterLock [of c lm w] have "autoApplyFrame w1 = autoApplyFrame w" by simp
  with e show ?thesis by (cases r) (simp_all add: loadSingleLocks_def)
qed

lemma frame_loadCurrentLocks [simp]:
  "autoApplyFrame (snd (snd (loadCurrentLocks now lm w))) = autoApplyFrame w"
proof -
  obtain r cc w1 where e: "getCurrent now w (chatContext lm) = (r, cc, w1)"
    by (cases "getCurrent now w (chatContext lm)") auto
  with frame_getCurrent [of now w "chatContext lm"]
  have f1: "autoApplyFrame w1 = autoApplyFrame w" by simp
  show ?thesis
  proof (cases r)
    case (Inl x)
    with e f1 show ?thesis by (simp add: loadCurrentLocks_def)
  next
    case (Inr ctx)
    let ?lm1 = "lm\<lparr>chatContext := cc, currentLocks := getEmptyLocks\<rparr>"
    let ?load = "if isGroupChat ctx then loadGroupLocks ctx ?lm1 w1 else loadSingleLocks ctx ?lm1 w1"
    obtain q lm2 w2 where e2: "?load = (q, lm2, w2)" by (cases ?load) auto
    have "autoApplyFrame (snd (snd ?load)) = autoApplyFrame w1" by simp
    with e2 have f2: "autoApplyFrame w2 = autoApplyFrame w1" by simp
    from Inr e e2 f1 f2 show ?thesis
      by (cases q) (simp_all add: loadCurrentLocks_def Let_def)
  qed
qed

lemma frame_getLockToApply [simp]:
  "autoApplyFrame (snd (snd (getLockToApply now lm w))) = autoApplyFrame w"
proof -
  obtain r cc w1 where e: "getCurrent now w (chatContext lm) = (r, cc, w1)"
    by (cases "getCurrent now w (chatContext lm)") auto
  with frame_getCurrent [of now w "chatContext lm"]
  have f1: "autoApplyFrame w1 = autoApplyFrame w" by simp
  obtain es w2 where e2: "getExtensionSettings w1 = (es, w2)" by (cases "getExtensionSettings w1")
  with frame_getExtensionSettings [of w1] have f2: "autoApplyFrame w2 = autoApplyFrame w1" by simp
  from e e2 f1 f2 show ?thesis by (cases r) (simp_all add: getLockToApply_def)
qed

lemma frame_getEffectiveLock [simp]:
  "autoApplyFrame (snd (snd (getEffectiveLock t1 t2 ptm w))) = autoApplyFrame w"
proof -
  obtain r lm1 w1 where e: "loadCurrentLocks t1 (lockManager ptm) w = (r, lm1, w1)"
    by (cases "loadCurrentLocks t1 (lockManager ptm) w") auto
  with frame_loadCurrentLocks [of t1 "lockManager ptm" w]
  have f1: "autoApplyFrame w1 = autoApplyFrame w" by simp
  obtain r2 lm2 w2 where e2: "getLockToApply t2 lm1 w1 = (r2, lm2, w2)"
    by (cases "getLockToApply t2 lm1 w1") auto
  with frame_getLockToApply [of t2 lm1 w1] have f2: "autoApplyFrame w2 = autoApplyFrame w1" by simp
  from e e2 f1 f2 show ?thesis by (cases r) (simp_all add: getEffectiveLock_def)
qed

lemma frame_mode:
  "autoApplyFrame w1 = autoApplyFrame w \<Longrightarrow> configuredAutoApplyMode w1 = configuredAutoApplyMode w"
  by (simp add: autoApplyFrame_def configuredAutoApplyMode_def)

lemma noTemplateResolved_Inr:
  "noTemplateResolved (Inr l) \<Longrightarrow> templateId l = None \<or> templateId l = Some []"
  by (cases "templateId l") (auto simp: noTemplateResolved_def truthy_def)

lemma handlePresetChange_frame:
  assumes "configuredAutoApplyMode w = AUTO_NEVER
           \<or> noTemplateResolved (fst (getEffectiveLock t1 t2 ptm w))"
  shows "autoApplyFrame (snd (snd (handlePresetChange t1 t2 t3 ptm w))) = autoApplyFrame w"
proof (cases "configuredAutoApplyMode w = AUTO_NEVER")
  case True
  then show ?thesis by (simp add: handlePresetChange_def)
next
  case False
  with assms have n: "noTemplateResolved (fst (getEffectiveLock t1 t2 ptm w))" by simp
  obtain r ptm1 w1 where e: "getEffectiveLock t1 t2 ptm w = (r, ptm1, w1)"
    by (cases "getEffectiveLock t1 t2 ptm w") auto
  with frame_getEffectiveLock [of t1 t2 ptm w]
  have f: "autoApplyFrame w1 = autoApplyFrame w" by simp
  show ?thesis
  proof (cases r)
    case (Inl x)
    with False e f show ?thesis by (simp add: handlePresetChange_def)
  next
    case (Inr l)
    with n e have "templateId l = None \<or> templateId l = Some []"
      by (simp add: noTemplateResolved_Inr)
    with Inr False e f show ?thesis by (auto simp: handlePresetChange_def)
  qed
qed

lemma handleChatChange_frame:
  assumes "configuredAutoApplyMode w = AUTO_NEVER
           \<or> noTemplateResolved (chatChangeEffectiveLock t0 t1 t2 ptm w)"
  shows "autoApplyFrame (snd (snd (handleChatChange t0 t1 t2 t3 ptm w))) = autoApplyFrame w"
proof -
  let ?lm0 = "(lockManager ptm)\<lparr>chatContext := invalidate (chatContext (lockManager ptm))\<rparr>"
  obtain r0 lm1 w1 where e0: "loadCurrentLocks t0 ?lm0 w = (r0, lm1, w1)"
    by (cases "loadCurrentLocks t0 ?lm0 w") auto
  with frame_loadCurrentLocks [of t0 ?lm0 w]
  have f0: "autoApplyFrame w1 = autoApplyFrame w" by simp
  then have m: "configuredAutoApplyMode w1 = configuredAutoApplyMode w" by (rule frame_mode)
  show ?thesis
  proof (cases r0)
    case (Inl x)
    with e0 f0 show ?thesis by (simp add: handleChatChange_def)
  next
    case r0: (Inr l0)
    show ?thesis
    proof (cases "configuredAutoApplyMode w = AUTO_NEVER")
      case True
      with r0 e0 f0 m show ?thesis by (simp add: handleChatChange_def)
    next
      case False
      let ?ptm1 = "ptm\<lparr>lockManager := lm1\<rparr>"
      from False assms r0 e0
      have n: "noTemplateResolved (fst (getEffectiveLock t1 t2 ?ptm1 w1))"
        by (simp add: chatChangeEffectiveLock_def)
      obtain r ptm2 w2 where e: "getEffectiveLock t1 t2 ?ptm1 w1 = (r, ptm2, w2)"
        by (cases "getEffectiveLock t1 t2 ?ptm1 w1") auto
      with frame_getEffectiveLock [of t1 t2 ?ptm1 w1]
      have f: "autoApplyFrame w2 = autoApplyFrame w1" by simp
      show ?thesis
      proof (cases r)
        case (Inl x)
        with False r0 e0 e f f0 m show ?thesis by (simp add: handleChatChange_def)
      next
        case (Inr l)
        with n e have "templateId l = None \<or> templateId l = Some []"
          by (simp add: noTemplateResolved_Inr)
        with Inr False r0 e0 e f f0 m show ?thesis by (auto simp: handleChatChange_def)
      qed
    qed
  qed
qed

text \<open>
  C6. On a preset change and on a chat change, if the configured mode is Never, or the
  effective lock the handler resolves carries no template id (or its resolution throws),
  the handler does not enter \<^verbatim>\<open>applyTemplate\<close> and leaves \<^verbatim>\<open>oai_settings.prompts\<close> and
  \<^verbatim>\<open>oai_settings.prompt_order\<close> as they were, in every mode.
\<close>

theorem auto_apply_skipped:
  "(configuredAutoApplyMode w = AUTO_NEVER
      \<or> noTemplateResolved (fst (getEffectiveLock tb tc ptm w)) \<longrightarrow>
        applyCalls (snd (snd (handlePresetChange tb tc td ptm w))) = applyCalls w
        \<and> oai_prompts (snd (snd (handlePresetChange tb tc td ptm w))) = oai_prompts w
        \<and> oai_prompt_order (snd (snd (handlePresetChange tb tc td ptm w))) = oai_prompt_order w)
   \<and> (configuredAutoApplyMode w = AUTO_NEVER
      \<or> noTemplateResolved (chatChangeEffectiveLock ta tb tc ptm w) \<longrightarrow>
        applyCalls (snd (snd (handleChatChange ta tb tc td ptm w))) = applyCalls w
        \<and> oai_prompts (snd (snd (handleChatChange ta tb tc td ptm w))) = oai_prompts w
        \<and> oai_prompt_order (snd (snd (handleChatChange ta tb tc td ptm w))) = oai_prompt_order w)"
  using handlePresetChange_frame [of w tb tc ptm td] handleChatChange_frame [of w ta tb tc ptm td]
  by (simp add: autoApplyFrame_def)

text \<open>
  Mode Never with a chat lock present on a preset change, and mode Always with no lock
  anywhere on a chat change.
\<close>

lemma exAlways_none:
  "chatChangeEffectiveLock 5000 5001 5002 exManager exAlwaysWorld = Inr noneResult"
  by (simp add: chatChangeEffectiveLock_def exAlwaysWorld_def exWorld_def exManager_def
      manager_defs probe_defs resolver_defs)

theorem auto_apply_skipped_witness:
  "configuredAutoApplyMode exNeverWorld = AUTO_NEVER
   \<and> applyCalls (snd (snd (handlePresetChange 5000 5001 5002 exManager exNeverWorld)))
       = applyCalls exNeverWorld
   \<and> oai_prompts (snd (snd (handlePresetChange 5000 5001 5002 exManager exNeverWorld)))
       = oai_prompts exNeverWorld
   \<and> configuredAutoApplyMode exAlwaysWorld = AUTO_ALWAYS
   \<and> noTemplateResolved (chatChangeEffectiveLock 5000 5001 5002 exManager exAlwaysWorld)
   \<and> applyCalls (snd (snd (handleChatChange 5000 5001 5002 5003 exManager exAlwaysWorld)))
       = applyCalls exAlwaysWorld
   \<and> oai_prompts (snd (snd (handleChatChange 5000 5001 5002 5003 exManager exAlwaysWorld)))
       = oai_prompts exAlwaysWorld"
proof -
  have a: "configuredAutoApplyMode exNeverWorld = AUTO_NEVER"
    by (simp add: configuredAutoApplyMode_def exNeverWorld_def exWorld_def AUTO_NEVER_def)
  have b: "configuredAutoApplyMode exAlwaysWorld = AUTO_ALWAYS"
    by (simp add: configuredAutoApplyMode_def exAlwaysWorld_def exWorld_def AUTO_ALWAYS_def)
  have c: "noTemplateResolved (chatChangeEffectiveLock 5000 5001 5002 exManager exAlwaysWorld)"
    by (simp add: exAlways_none noTemplateResolved_def noneResult_def truthy_def)
  from auto_apply_skipped [where w = exNeverWorld and ptm = exManager
           and ta = 4999 and tb = 5000 and tc = 5001 and td = 5002]
       auto_apply_skipped [where w = exAlwaysWorld and ptm = exManager
           and ta = 5000 and tb = 5001 and tc = 5002 and td = 5003] a b c
  show ?thesis by simp
qed

text \<open>
  For contrast, with the chat lock present the chat-change handler applies the template
  in mode Always, and the preset-change handler applies it in mode Ask exactly when the
  user confirms.
\<close>

lemma handleChatChange_applies_example:
  "applyCalls (snd (snd (handleChatChange 5000 5001 5002 5003 exManager
       (exNeverWorld\<lparr>ext_autoApplyMode := Some ''always''\<rparr>)))) = [''tmpl_a'']
   \<and> oai_prompts (snd (snd (handleChatChange 5000 5001 5002 5003 exManager
       (exNeverWorld\<lparr>ext_autoApplyMode := Some ''always''\<rparr>)))) = Some (map snd (prompts exTemplate))
   \<and> applyCalls (snd (snd (handlePresetChange 5001 5002 5003 exManager
       (exNeverWorld\<lparr>ext_autoApplyMode := Some ''ask''\<rparr>)))) = [''tmpl_a'']
   \<and> applyCalls (snd (snd (handlePresetChange 5001 5002 5003 exManager
       (exNeverWorld\<lparr>ext_autoApplyMode := Some ''ask'', popupAnswer := False\<rparr>)))) = []"
  by (simp add: handleChatChange_def handlePresetChange_def askAndApply_def
      configuredAutoApplyMode_def AUTO_NEVER_def AUTO_ASK_def AUTO_ALWAYS_def
      exNeverWorld_def exWorld_def exManager_def exTemplate_def exEmptyTemplate_def
      manager_defs probe_defs resolver_defs apply_defs applyCalls_def)

end
